theory Spec2Isabelle
  imports Main "HOL-Library.Word"
begin

unbundle bit_operations_syntax

section \<open>Type model\<close>

text \<open>
  Modelled from the spec: the enumeration \<open>TypeKind\<close> is declared in the module
  \<open>./type\<close>, which is not among the sources. The spec (section 3) gives it as the closed
  enumeration below; the adapter and the stub use \<open>Any\<close> to \<open>Null\<close> and \<open>Other\<close>, the
  checker's tests use \<open>Object\<close> and \<open>Function\<close>.
\<close>

datatype TypeKind =
  Any | Boolean | String | Number | Symbol | Undefined | Null | Object | Function | Other

text \<open>
  Modelled from the spec: the interfaces \<open>Symbol\<close>, \<open>SymbolTable\<close>, \<open>Type\<close>,
  \<open>TypeArguments\<close> and \<open>CallSignature\<close> (modules \<open>./symbol\<close> and \<open>./type\<close>, not
  among the sources), with the shapes of section 3 of the spec and of the object literals
  in \<open>test/stubs/type-repository.ts\<close>. A symbol table and a call signature are generic in
  what they hold: plain values in the stub and in the checker's scopes, adapter objects
  in the host-backed adapter.
\<close>

datatype 'sym SymbolTable = SimpleSymbolTable "'sym list"

datatype 't TypeArguments = AnyTypeArguments | SimpleTypeArguments "'t list"

datatype 't CallSignature = CallSignature (argTypes: "'t TypeArguments") (returnType: 't)

datatype Type =
  Type (name: string) (kind: TypeKind) (members: "Symbol SymbolTable")
    (callSignatures: "Type CallSignature list")
and Symbol = Symbol (name: string) (type: Type)

text \<open>
  Modelled from the spec: the constants \<open>anyType\<close>, \<open>nullType\<close> and \<open>undefinedType\<close>
  of the missing module \<open>./type\<close>: fixed singleton types of kind \<open>Any\<close>, \<open>Null\<close> and
  \<open>Undefined\<close>, available without the host. Only their kinds matter below.
\<close>

definition anyType :: Type where
  "anyType = Type ''any'' TypeKind.Any (SimpleSymbolTable []) []"

definition nullType :: Type where
  "nullType = Type ''null'' TypeKind.Null (SimpleSymbolTable []) []"

definition undefinedType :: Type where
  "undefinedType = Type ''undefined'' TypeKind.Undefined (SimpleSymbolTable []) []"

section \<open>The host: the TypeScript compiler API as the adapter sees it\<close>

text \<open>
  \<open>ts.TypeFlags\<close>: the adapter reads the flag constants from the \<open>ts\<close> module of its
  context, so their values are a parameter. JavaScript's \<open>&\<close> and \<open>|\<close> work on 32-bit
  integers, and a number is truthy when it is not zero.
\<close>

record TypeFlags =
  Any :: "32 word"
  Boolean :: "32 word"
  BooleanLike :: "32 word"
  BooleanLiteral :: "32 word"
  String :: "32 word"
  StringLike :: "32 word"
  StringLiteral :: "32 word"
  Number :: "32 word"
  NumberLike :: "32 word"
  ESSymbol :: "32 word"
  Undefined :: "32 word"
  Null :: "32 word"

text \<open>
  Host objects. A \<open>ts.Type\<close> carries its \<open>flags\<close>; the identifier tells two host types
  with the same flags apart. Host symbols and signatures are opaque handles.
\<close>

record TsType =
  flags :: "32 word"
  type_id :: nat

datatype TsSymbol = TsSymbol nat
datatype TsSignature = TsSignature nat

datatype SyntaxKind = VariableDeclaration | OtherSyntaxKind nat

text \<open>
  A \<open>ts.Node\<close> of the fixture's syntax tree: its \<open>kind\<close>, its position (which tells
  nodes apart), for a variable declaration the text of its type annotation
  (\<open>prop.type.getText(source)\<close>, \<open>None\<close> when the declaration has no annotation), and
  the children that \<open>ts.forEachChild\<close> visits, in order.
\<close>

datatype Node = Node (kind: SyntaxKind) (pos: nat) (type_text: "string option") (children: "Node list")

text \<open>
  The answers of the host's type checker and of the host's type objects. They are passed
  to every operation that asks the host, so nothing is assumed about two calls giving the
  same answer.
\<close>

record Host =
  getProperties :: "TsType \<Rightarrow> TsSymbol list"
  getCallSignatures :: "TsType \<Rightarrow> TsSignature list"
  getParameters :: "TsSignature \<Rightarrow> TsSymbol list"
  getReturnType :: "TsSignature \<Rightarrow> TsType"
  getTypeOfSymbolAtLocation :: "TsSymbol \<Rightarrow> Node \<Rightarrow> TsType"

section \<open>The adapter's objects\<close>

type_synonym ref = nat

text \<open>\<open>TypeScriptSymbol\<close>: a host symbol with its anchoring node; it has no mutable field.\<close>

datatype TypeScriptSymbol = TypeScriptSymbol (tsSymbol: TsSymbol) (symbol_node: Node)

text \<open>
  \<open>TypeScriptType\<close>: the host type, the anchoring node, and the two private memo fields
  \<open>_members\<close> and \<open>_callSignatures\<close> (\<open>None\<close> for JavaScript's \<open>undefined\<close> and
  \<open>null\<close>; a symbol table object and an array, even an empty one, are truthy).
  These objects are mutable and shared, so they live in a heap and are named by
  reference: \<open>new\<close> appends to the heap, a reference is an index.
\<close>

record TypeScriptType =
  tsType :: TsType
  node :: Node
  members_memo :: "TypeScriptSymbol SymbolTable option"
  callSignatures_memo :: "ref CallSignature list option"

type_synonym heap = "TypeScriptType list"

definition new_TypeScriptType :: "TsType \<Rightarrow> Node \<Rightarrow> heap \<Rightarrow> ref \<times> heap" where
  "new_TypeScriptType t n h =
     (length h,
      h @ [\<lparr>tsType = t, node = n, members_memo = None, callSignatures_memo = None\<rparr>])"

text \<open>The object that \<open>new TypeScriptType(checker.getTypeAtLocation(prop), prop, context)\<close> creates.\<close>

definition typeScriptType :: "(Node \<Rightarrow> TsType) \<Rightarrow> Node \<Rightarrow> TypeScriptType" where
  "typeScriptType typeAt prop =
     \<lparr>tsType = typeAt prop, node = prop, members_memo = None, callSignatures_memo = None\<rparr>"

subsection \<open>\<open>TypeScriptType.kind\<close>\<close>

definition kind :: "TypeFlags \<Rightarrow> TypeScriptType \<Rightarrow> TypeKind" where
  "kind ts this =
     (let flags = flags (tsType this) in
      if flags AND TypeFlags.Any ts \<noteq> 0 then TypeKind.Any
      else if flags AND (TypeFlags.Boolean ts OR TypeFlags.BooleanLike ts
                           OR TypeFlags.BooleanLiteral ts) \<noteq> 0
        then TypeKind.Boolean
      else if flags AND (TypeFlags.String ts OR TypeFlags.StringLike ts
                           OR TypeFlags.StringLiteral ts) \<noteq> 0
        then TypeKind.String
      else if flags AND (TypeFlags.Number ts OR TypeFlags.NumberLike ts) \<noteq> 0
        then TypeKind.Number
      else if flags AND TypeFlags.ESSymbol ts \<noteq> 0 then TypeKind.Symbol
      else if flags AND TypeFlags.Undefined ts \<noteq> 0 then TypeKind.Undefined
      else if flags AND TypeFlags.Null ts \<noteq> 0 then TypeKind.Null
      else TypeKind.Other)"

text \<open>
  The spec's wording of the classification: an ordered list of tests, each a flag mask
  with the kind it stands for; the first test that matches decides, and a host type that
  matches none is \<open>Other\<close>.
\<close>

definition precedence :: "TypeFlags \<Rightarrow> (32 word \<times> TypeKind) list" where
  "precedence ts =
     [(TypeFlags.Any ts, TypeKind.Any),
      (TypeFlags.Boolean ts OR TypeFlags.BooleanLike ts OR TypeFlags.BooleanLiteral ts,
       TypeKind.Boolean),
      (TypeFlags.String ts OR TypeFlags.StringLike ts OR TypeFlags.StringLiteral ts,
       TypeKind.String),
      (TypeFlags.Number ts OR TypeFlags.NumberLike ts, TypeKind.Number),
      (TypeFlags.ESSymbol ts, TypeKind.Symbol),
      (TypeFlags.Undefined ts, TypeKind.Undefined),
      (TypeFlags.Null ts, TypeKind.Null)]"

fun first_match :: "32 word \<Rightarrow> (32 word \<times> TypeKind) list \<Rightarrow> TypeKind" where
  "first_match fl [] = TypeKind.Other"
| "first_match fl ((m, k) # tests) =
     (if fl AND m \<noteq> 0 then k else first_match fl tests)"

definition kind_by_precedence :: "TypeFlags \<Rightarrow> TypeScriptType \<Rightarrow> TypeKind" where
  "kind_by_precedence ts this = first_match (flags (tsType this)) (precedence ts)"

text \<open>
  A sample flag table for concrete evaluations: one bit per basic flag, and each
  \<open>-Like\<close> mask the union of its base flag and its literal flag.
\<close>

definition sampleFlags :: TypeFlags where
  "sampleFlags =
     \<lparr>Any = 1, Boolean = 8, BooleanLike = 136, BooleanLiteral = 128,
      String = 2, StringLike = 34, StringLiteral = 32,
      Number = 4, NumberLike = 68, ESSymbol = 512, Undefined = 2048, Null = 4096\<rparr>"

definition hostType :: "32 word \<Rightarrow> Node \<Rightarrow> TypeScriptType" where
  "hostType fl n =
     \<lparr>tsType = \<lparr>flags = fl, type_id = 0\<rparr>, node = n,
      members_memo = None, callSignatures_memo = None\<rparr>"

subsection \<open>\<open>TypeScriptType.members\<close> and \<open>TypeScriptType.callSignatures\<close>\<close>

text \<open>
  Both getters take the reference of \<open>this\<close> and the heap, and return the value with the
  heap after the call. \<open>members\<close> builds symbols, which are not heap objects;
  \<open>callSignatures\<close> creates a new \<open>TypeScriptType\<close> for every parameter and for the
  return type of every signature, in that order.
\<close>

definition members ::
  "Host \<Rightarrow> ref \<Rightarrow> heap \<Rightarrow> TypeScriptSymbol SymbolTable \<times> heap" where
  "members host this h =
     (case members_memo (h ! this) of
        None \<Rightarrow>
          (let symbols = map (\<lambda>s. TypeScriptSymbol s (node (h ! this)))
                           (getProperties host (tsType (h ! this)));
               table = SimpleSymbolTable symbols
           in (table, h[this := (h ! this)\<lparr>members_memo := Some table\<rparr>]))
      | Some table \<Rightarrow> (table, h))"

fun new_TypeScriptTypes :: "TsType list \<Rightarrow> Node \<Rightarrow> heap \<Rightarrow> ref list \<times> heap" where
  "new_TypeScriptTypes [] n h = ([], h)"
| "new_TypeScriptTypes (t # ts) n h =
     (let (r, h1) = new_TypeScriptType t n h;
          (rs, h2) = new_TypeScriptTypes ts n h1
      in (r # rs, h2))"

fun map_signatures ::
  "Host \<Rightarrow> Node \<Rightarrow> TsSignature list \<Rightarrow> heap \<Rightarrow> ref CallSignature list \<times> heap" where
  "map_signatures host n [] h = ([], h)"
| "map_signatures host n (s # ss) h =
     (let (args, h1) =
            new_TypeScriptTypes
              (map (\<lambda>p. getTypeOfSymbolAtLocation host p n) (getParameters host s)) n h;
          (ret, h2) = new_TypeScriptType (getReturnType host s) n h1;
          (rest, h3) = map_signatures host n ss h2
      in (CallSignature (SimpleTypeArguments args) ret # rest, h3))"

definition callSignatures ::
  "Host \<Rightarrow> ref \<Rightarrow> heap \<Rightarrow> ref CallSignature list \<times> heap" where
  "callSignatures host this h =
     (case callSignatures_memo (h ! this) of
        None \<Rightarrow>
          (let (sigs, h') =
                 map_signatures host (node (h ! this))
                   (getCallSignatures host (tsType (h ! this))) h
           in (sigs, h'[this := (h' ! this)\<lparr>callSignatures_memo := Some sigs\<rparr>]))
      | Some sigs \<Rightarrow> (sigs, h))"

section \<open>The host-backed repository\<close>

text \<open>
  What the code throws. \<open>assert(cond, message)\<close> of Node's \<open>assert\<close> module throws an
  \<open>AssertionError\<close>, \<open>throw new Error(message)\<close> an \<open>Error\<close>; reading a property of
  \<open>undefined\<close> (\<open>prop.type!.getText\<close> on a declaration without annotation) is a
  \<open>TypeError\<close>. A message that the code builds from a kind keeps the kind.
\<close>

datatype message =
    CannotSpecifyOther
  | NotFound TypeKind
  | UnexpectedTypeKind TypeKind
  | UnknownTypeKind TypeKind

datatype error = AssertionError message | Error message | TypeError

text \<open>
  A value of the interface \<open>Type\<close> as the repository hands it out: one of the plain
  singletons, or a reference to a \<open>TypeScriptType\<close> object.
\<close>

datatype TypeRef = Plain Type | Instance ref

text \<open>
  The program that \<open>ts.createProgram\<close> returns for the fixture
  \<open>data/type-provider.ts\<close> (the file is not among the sources): its source file and the
  answers of its type checker.
\<close>

record Program =
  getSourceFile :: Node
  getTypeAtLocation :: "Node \<Rightarrow> TsType"

text \<open>
  The fields of a \<open>TypeScriptTypeRepository\<close>, the heap its objects live in, and the
  number of calls of \<open>ts.createProgram\<close> it has made so far (the trace of that effect).
\<close>

record TypeScriptTypeRepository =
  cached :: bool
  cache :: "TypeKind \<rightharpoonup> ref"
  heap :: heap
  createProgram_calls :: nat

definition new_TypeScriptTypeRepository :: "heap \<Rightarrow> TypeScriptTypeRepository" where
  "new_TypeScriptTypeRepository h =
     \<lparr>cached = False, cache = Map.empty, heap = h, createProgram_calls = 0\<rparr>"

text \<open>
  The inner \<open>switch\<close> of \<open>search\<close> has the clauses \<open>'string'\<close>, \<open>'number'\<close>,
  \<open>'boolean'\<close>, \<open>'symbol'\<close> and an empty \<open>default\<close>, and no clause ends in \<open>break\<close>.
  A JavaScript \<open>switch\<close> jumps to the first clause whose label equals the value and runs
  the statements from there to the end of the block or to a \<open>break\<close>: here, the body of
  the matching clause and of every clause after it. Every body is
  \<open>this.cache.set(K, new TypeScriptType(checker.getTypeAtLocation(prop), prop, this.context))\<close>
  for the kind \<open>K\<close> of its clause.
\<close>

definition clauses :: "(string \<times> TypeKind) list" where
  "clauses =
     [(''string'', TypeKind.String), (''number'', TypeKind.Number),
      (''boolean'', TypeKind.Boolean), (''symbol'', TypeKind.Symbol)]"

definition switch_no_break :: "'l \<Rightarrow> ('l \<times> 'b) list \<Rightarrow> 'b list" where
  "switch_no_break v cs = map snd (dropWhile (\<lambda>c. fst c \<noteq> v) cs)"

definition cache_set ::
  "Program \<Rightarrow> Node \<Rightarrow> TypeKind \<Rightarrow> TypeScriptTypeRepository \<Rightarrow> TypeScriptTypeRepository" where
  "cache_set program prop k this =
     (let (r, h) = new_TypeScriptType (getTypeAtLocation program prop) prop (heap this)
      in this\<lparr>cache := (cache this)(k \<mapsto> r), heap := h\<rparr>)"

fun run_bodies ::
  "Program \<Rightarrow> Node \<Rightarrow> TypeKind list \<Rightarrow> TypeScriptTypeRepository \<Rightarrow> TypeScriptTypeRepository" where
  "run_bodies program prop [] this = this"
| "run_bodies program prop (k # ks) this =
     run_bodies program prop ks (cache_set program prop k this)"

definition dispatch ::
  "Program \<Rightarrow> Node \<Rightarrow> TypeScriptTypeRepository \<Rightarrow> error option \<times> TypeScriptTypeRepository" where
  "dispatch program prop this =
     (case type_text prop of
        None \<Rightarrow> (Some TypeError, this)
      | Some text \<Rightarrow> (None, run_bodies program prop (switch_no_break text clauses) this))"

text \<open>
  \<open>search\<close>: the outer \<open>switch\<close> has no \<open>break\<close> either, so a variable declaration is
  dispatched and then, like every other node, has its children searched.
  \<open>ts.forEachChild\<close> calls \<open>search\<close> on each child in order (\<open>search\<close> returns nothing,
  so the iteration never stops early); an exception ends the walk.
\<close>

fun search ::
  "Program \<Rightarrow> Node \<Rightarrow> TypeScriptTypeRepository \<Rightarrow> error option \<times> TypeScriptTypeRepository"
and forEachChild ::
  "Program \<Rightarrow> Node list \<Rightarrow> TypeScriptTypeRepository \<Rightarrow> error option \<times> TypeScriptTypeRepository"
where
  "search program (Node k p t cs) this =
     (if k = VariableDeclaration then
        (case dispatch program (Node k p t cs) this of
           (Some e, this') \<Rightarrow> (Some e, this')
         | (None, this') \<Rightarrow> forEachChild program cs this')
      else forEachChild program cs this)"
| "forEachChild program [] this = (None, this)"
| "forEachChild program (c # cs) this =
     (case search program c this of
        (Some e, this') \<Rightarrow> (Some e, this')
      | (None, this') \<Rightarrow> forEachChild program cs this')"

definition ensureLoadBuiltInTypes ::
  "Program \<Rightarrow> TypeScriptTypeRepository \<Rightarrow> error option \<times> TypeScriptTypeRepository" where
  "ensureLoadBuiltInTypes program this =
     (if cached this then (None, this)
      else forEachChild program (children (getSourceFile program))
             (this\<lparr>cached := True, createProgram_calls := createProgram_calls this + 1\<rparr>))"

definition assert_found ::
  "TypeKind \<Rightarrow> ref option \<Rightarrow> error + TypeRef" where
  "assert_found k res =
     (case res of None \<Rightarrow> Inl (AssertionError (NotFound k)) | Some r \<Rightarrow> Inr (Instance r))"

definition getTypeByKind ::
  "Program \<Rightarrow> TypeKind \<Rightarrow> TypeScriptTypeRepository
     \<Rightarrow> (error + TypeRef) \<times> TypeScriptTypeRepository" where
  "getTypeByKind program k this =
     (if k = TypeKind.Other then (Inl (AssertionError CannotSpecifyOther), this)
      else if k = TypeKind.Any then (Inr (Plain anyType), this)
      else if k = TypeKind.Null then (Inr (Plain nullType), this)
      else if k = TypeKind.Undefined then (Inr (Plain undefinedType), this)
      else
        (case ensureLoadBuiltInTypes program this of
           (Some e, this') \<Rightarrow> (Inl e, this')
         | (None, this') \<Rightarrow>
             (case k of
                TypeKind.String \<Rightarrow> (assert_found k (cache this' TypeKind.String), this')
              | TypeKind.Number \<Rightarrow> (assert_found k (cache this' TypeKind.Number), this')
              | TypeKind.Boolean \<Rightarrow> (assert_found k (cache this' TypeKind.Boolean), this')
              | TypeKind.Symbol \<Rightarrow> (assert_found k (cache this' TypeKind.Symbol), this')
              | _ \<Rightarrow> (Inl (Error (UnexpectedTypeKind k)), this'))))"

text \<open>A sequence of calls made on one repository and on objects of its heap.\<close>

datatype call = GetTypeByKind TypeKind | Members ref | CallSignatures ref

fun run ::
  "Program \<Rightarrow> Host \<Rightarrow> call list \<Rightarrow> TypeScriptTypeRepository \<Rightarrow> TypeScriptTypeRepository" where
  "run program host [] this = this"
| "run program host (GetTypeByKind k # cs) this =
     run program host cs (snd (getTypeByKind program k this))"
| "run program host (Members r # cs) this =
     run program host cs (this\<lparr>heap := snd (members host r (heap this))\<rparr>)"
| "run program host (CallSignatures r # cs) this =
     run program host cs (this\<lparr>heap := snd (callSignatures host r (heap this))\<rparr>)"

text \<open>
  The vocabulary for statements about the load. The variable declarations of a tree, in
  the order in which \<open>search\<close> reaches them: a node before its children, the children
  from left to right.
\<close>

fun variableDeclarations :: "Node \<Rightarrow> Node list"
and variableDeclarations_list :: "Node list \<Rightarrow> Node list"
where
  "variableDeclarations (Node k p t cs) =
     (if k = VariableDeclaration then [Node k p t cs] else []) @ variableDeclarations_list cs"
| "variableDeclarations_list [] = []"
| "variableDeclarations_list (c # cs) = variableDeclarations c @ variableDeclarations_list cs"

text \<open>The declarations that the walk of \<open>ensureLoadBuiltInTypes\<close> meets in a program.\<close>

definition fixtureDeclarations :: "Program \<Rightarrow> Node list" where
  "fixtureDeclarations program = variableDeclarations_list (children (getSourceFile program))"

text \<open>
  Every declaration of the program has a type annotation (so \<open>prop.type!\<close> is never
  \<open>undefined\<close>), and: the program has a declaration with the given annotation.
\<close>

definition annotated :: "Program \<Rightarrow> bool" where
  "annotated program = list_all (\<lambda>d. type_text d \<noteq> None) (fixtureDeclarations program)"

definition declares :: "Program \<Rightarrow> string \<Rightarrow> bool" where
  "declares program text =
     list_ex (\<lambda>d. type_text d = Some text) (fixtureDeclarations program)"

text \<open>The dispatch run on a sequence of declarations, one after the other.\<close>

definition dispatch_all ::
  "Program \<Rightarrow> Node list \<Rightarrow> TypeScriptTypeRepository \<Rightarrow> TypeScriptTypeRepository" where
  "dispatch_all program ds this = foldl (\<lambda>r d. snd (dispatch program d r)) this ds"

subsection \<open>Sample inputs\<close>

text \<open>
  Modelled from the spec: the fixture \<open>data/type-provider.ts\<close> is not among the sources.
  The spec describes it as a source that declares one variable per primitive kind
  (\<open>string\<close>, \<open>number\<close>, \<open>boolean\<close>, \<open>symbol\<close>); this is such a tree, one statement per
  declaration, with a host checker that answers by the annotation.
\<close>

definition variableStatement :: "nat \<Rightarrow> string \<Rightarrow> Node" where
  "variableStatement p text =
     Node (OtherSyntaxKind 0) p None
       [Node (OtherSyntaxKind 1) p None
          [Node VariableDeclaration p (Some text)
             [Node (OtherSyntaxKind 2) p None [], Node (OtherSyntaxKind 3) (p + 1) None []]]]"

definition fixture :: Program where
  "fixture =
     \<lparr>getSourceFile =
        Node (OtherSyntaxKind 4) 0 None
          [variableStatement 10 ''string'', variableStatement 20 ''number'',
           variableStatement 30 ''boolean'', variableStatement 40 ''symbol''],
      getTypeAtLocation =
        (\<lambda>n. \<lparr>flags = (if type_text n = Some ''string'' then 2
                        else if type_text n = Some ''number'' then 4
                        else if type_text n = Some ''boolean'' then 8
                        else if type_text n = Some ''symbol'' then 512 else 0),
              type_id = pos n\<rparr>)\<rparr>"

text \<open>
  Two more fixtures: one with a single declaration, annotated \<open>string\<close>, and one that
  declares a \<open>number\<close> before a \<open>string\<close>.
\<close>

definition oneDeclaration :: Program where
  "oneDeclaration =
     fixture\<lparr>getSourceFile :=
       Node (OtherSyntaxKind 4) 0 None [variableStatement 10 ''string'']\<rparr>"

definition numberThenString :: Program where
  "numberThenString =
     fixture\<lparr>getSourceFile :=
       Node (OtherSyntaxKind 4) 0 None
         [variableStatement 10 ''number'', variableStatement 20 ''string'']\<rparr>"

definition sampleHost :: "nat \<Rightarrow> Host" where
  "sampleHost v =
     \<lparr>getProperties = (\<lambda>t. [TsSymbol v, TsSymbol (v + 1)]),
      getCallSignatures = (\<lambda>t. [TsSignature v]),
      getParameters = (\<lambda>s. [TsSymbol (v + 2)]),
      getReturnType = (\<lambda>s. \<lparr>flags = 4, type_id = v\<rparr>),
      getTypeOfSymbolAtLocation = (\<lambda>s n. \<lparr>flags = 2, type_id = v\<rparr>)\<rparr>"

text \<open>
  A repository whose heap holds one object, a sequence of calls on it, and a fixture
  program without any declaration.
\<close>

definition sampleRepository :: TypeScriptTypeRepository where
  "sampleRepository =
     new_TypeScriptTypeRepository [hostType 2 (Node (OtherSyntaxKind 0) 0 None [])]"

definition sampleCalls :: "call list" where
  "sampleCalls =
     [CallSignatures 0, GetTypeByKind TypeKind.Number, Members 1, Members 0,
      CallSignatures 0]"

definition emptyFixture :: Program where
  "emptyFixture = fixture\<lparr>getSourceFile := Node (OtherSyntaxKind 4) 0 None []\<rparr>"

section \<open>The static stub repository (\<open>test/stubs/type-repository.ts\<close>)\<close>

definition emptyMembers :: "Symbol SymbolTable" where
  "emptyMembers = SimpleSymbolTable []"

definition number :: Type where
  "number = Type ''number'' TypeKind.Number emptyMembers []"

definition string :: Type where
  "string = Type ''string'' TypeKind.String emptyMembers []"

definition boolean :: Type where
  "boolean = Type ''boolean'' TypeKind.Boolean emptyMembers []"


section \<open>The checker engine\<close>

text \<open>
  The checker (\<open>checkExpression\<close> of the module \<open>./checker\<close>), the parser's syntax
  tree and the \<open>Diagnostic\<close> record are not among the sources; of the checker only its
  tests (\<open>test/checker.spec.ts\<close>) are. Every definition of this section is modelled from
  sections 3, 4.3, 4.4 and 6 of the spec, with the full message texts of the tests.
\<close>

text \<open>
  Modelled from the spec: the record \<open>Diagnostic\<close> (module \<open>./diagnostic\<close>, missing):
  a message and the half-open range of offsets it is about (section 6).
\<close>

record Diagnostic =
  message :: string
  start :: nat
  end' :: nat

text \<open>
  Modelled from the spec: the binary operators of the rule table of section 4.4 (the
  parser's own type is missing). The equality forms are \<open>===\<close>, \<open>!==\<close>, \<open>==\<close> and
  \<open>!=\<close>.
\<close>

datatype BinaryOperator =
    OpTimes | OpDivide | OpMinus
  | OpPlus
  | OpStrictEquals | OpStrictNotEquals | OpEquals | OpNotEquals
  | OpInstanceOf
  | OpIn

text \<open>
  Modelled from the spec: the syntax tree as the parser (module \<open>./parser\<close>, missing)
  hands it over, with the forms that the tests use; every node carries the half-open
  range \<open>[start, end)\<close> of its source text.
\<close>

datatype Expression =
    Identifier string nat nat
  | NumericLiteral nat nat
  | StringLiteral nat nat
  | BooleanLiteral nat nat
  | NullLiteral nat nat
  | ObjectLiteral nat nat
  | BinaryExpression BinaryOperator Expression Expression nat nat

text \<open>Modelled from the spec: the start of a node's range.\<close>

fun start_of :: "Expression \<Rightarrow> nat" where
  "start_of (Identifier n s e) = s"
| "start_of (NumericLiteral s e) = s"
| "start_of (StringLiteral s e) = s"
| "start_of (BooleanLiteral s e) = s"
| "start_of (NullLiteral s e) = s"
| "start_of (ObjectLiteral s e) = s"
| "start_of (BinaryExpression op l r s e) = s"

text \<open>Modelled from the spec: the end of a node's range.\<close>

fun end_of :: "Expression \<Rightarrow> nat" where
  "end_of (Identifier n s e) = e"
| "end_of (NumericLiteral s e) = e"
| "end_of (StringLiteral s e) = e"
| "end_of (BooleanLiteral s e) = e"
| "end_of (NullLiteral s e) = e"
| "end_of (ObjectLiteral s e) = e"
| "end_of (BinaryExpression op l r s e) = e"

text \<open>
  Modelled from the spec: lookup in a symbol table (module \<open>./symbol\<close>, missing;
  section 4.3). Lookup by name gives an absent signal when the name is not bound. The
  spec leaves duplicates to the implementation and accepts "last write wins", which is
  taken here.
\<close>

fun lookup :: "Symbol SymbolTable \<Rightarrow> string \<Rightarrow> Symbol option" where
  "lookup (SimpleSymbolTable symbols) n = find (\<lambda>s. Symbol.name s = n) (rev symbols)"

text \<open>
  Modelled from the spec: the type of an object literal (the built-in types of the
  module \<open>./types\<close> are missing). The tests let \<open>{}\<close> pass as the right-hand side of
  \<open>in\<close>, which wants kind \<open>Object\<close> or \<open>Any\<close>.
\<close>

definition objectType :: Type where
  "objectType = Type ''object'' TypeKind.Object emptyMembers []"

text \<open>
  Modelled from the spec: the message texts, as section 4.4 and the tests give them. The
  messages put names between single quotes.
\<close>

definition quoted :: "string \<Rightarrow> string" where
  "quoted s = CHR 0x27 # s @ [CHR 0x27]"

text \<open>Modelled from the spec: the operator as the messages name it.\<close>

fun operatorText :: "BinaryOperator \<Rightarrow> string" where
  "operatorText OpTimes = ''*''"
| "operatorText OpDivide = ''/''"
| "operatorText OpMinus = ''-''"
| "operatorText OpPlus = ''+''"
| "operatorText OpStrictEquals = ''===''"
| "operatorText OpStrictNotEquals = ''!==''"
| "operatorText OpEquals = ''==''"
| "operatorText OpNotEquals = ''!=''"
| "operatorText OpInstanceOf = ''instanceof''"
| "operatorText OpIn = ''in''"

text \<open>
  Modelled from the spec: the table of operator rules of section 4.4, which kinds the
  left side accepts; \<open>None\<close> where the table has no requirement for the side (the
  equality forms, and \<open>+\<close>, whose rule is about both sides together).
\<close>

fun leftAccepts :: "BinaryOperator \<Rightarrow> TypeKind list option" where
  "leftAccepts OpTimes = Some [TypeKind.Number, TypeKind.Any]"
| "leftAccepts OpDivide = Some [TypeKind.Number, TypeKind.Any]"
| "leftAccepts OpMinus = Some [TypeKind.Number, TypeKind.Any]"
| "leftAccepts OpInstanceOf = Some [TypeKind.Object, TypeKind.Any]"
| "leftAccepts OpIn =
     Some [TypeKind.Number, TypeKind.String, TypeKind.Symbol, TypeKind.Any]"
| "leftAccepts _ = None"

text \<open>Modelled from the spec: the right-hand column of the same table.\<close>

fun rightAccepts :: "BinaryOperator \<Rightarrow> TypeKind list option" where
  "rightAccepts OpTimes = Some [TypeKind.Number, TypeKind.Any]"
| "rightAccepts OpDivide = Some [TypeKind.Number, TypeKind.Any]"
| "rightAccepts OpMinus = Some [TypeKind.Number, TypeKind.Any]"
| "rightAccepts OpInstanceOf = Some [TypeKind.Function, TypeKind.Any]"
| "rightAccepts OpIn = Some [TypeKind.Object, TypeKind.Any]"
| "rightAccepts _ = None"

text \<open>
  Modelled from the spec: the messages for a violation on the left side, with the texts
  of the tests.
\<close>

fun leftMessage :: "BinaryOperator \<Rightarrow> string" where
  "leftMessage OpInstanceOf =
     ''The left-hand side of 'instanceof' must be of type 'any' or '' @ quoted ''object''"
| "leftMessage OpIn =
     ''The left-hand side of a 'in' operator must be of type 'any', 'number', 'string' or ''
       @ quoted ''symbol''"
| "leftMessage op =
     ''The left-hand side of a binary operator '' @ quoted (operatorText op)
       @ '' must be of type 'number' or '' @ quoted ''any''"

text \<open>Modelled from the spec: the messages for a violation on the right side.\<close>

fun rightMessage :: "BinaryOperator \<Rightarrow> string" where
  "rightMessage OpInstanceOf =
     ''The right-hand side of 'instanceof' must be of type 'any' or '' @ quoted ''Function''"
| "rightMessage OpIn =
     ''The right-hand side of a 'in' operator must be of type 'any' or '' @ quoted ''object''"
| "rightMessage op =
     ''The right-hand side of a binary operator '' @ quoted (operatorText op)
       @ '' must be of type 'number' or '' @ quoted ''any''"

text \<open>Modelled from the spec: the message of \<open>+\<close>, with the names of both types.\<close>

definition plusMessage :: "Type \<Rightarrow> Type \<Rightarrow> string" where
  "plusMessage lt rt =
     ''The binary operator '+' cannot be applied to type '' @ quoted (Type.name lt)
       @ '' and '' @ quoted (Type.name rt)"

text \<open>
  Modelled from the spec: \<open>+\<close> is valid if both sides are Number, or either side is
  String, or either side is Any.
\<close>

definition plusValid :: "TypeKind \<Rightarrow> TypeKind \<Rightarrow> bool" where
  "plusValid kl kr =
     (kl = TypeKind.Number \<and> kr = TypeKind.Number
      \<or> kl = TypeKind.String \<or> kr = TypeKind.String
      \<or> kl = TypeKind.Any \<or> kr = TypeKind.Any)"

text \<open>
  Modelled from the spec: the check of one operand against the kinds its side accepts;
  a violation is reported on the range of the operand.
\<close>

definition operandDiagnostics ::
  "TypeKind list option \<Rightarrow> string \<Rightarrow> Expression \<Rightarrow> Type \<Rightarrow> Diagnostic list" where
  "operandDiagnostics accepted msg operand t =
     (case accepted of
        None \<Rightarrow> []
      | Some kinds \<Rightarrow>
          if Type.kind t \<in> set kinds then []
          else [\<lparr>message = msg, start = start_of operand, end' = end_of operand\<rparr>])"

text \<open>
  Modelled from the spec: the diagnostics of one operator node, from the types of its
  operands: for \<open>+\<close> one diagnostic on the whole expression, for the other operators
  one check per side, each on its own operand, the left one first.
\<close>

definition operatorDiagnostics ::
  "BinaryOperator \<Rightarrow> Expression \<Rightarrow> Expression \<Rightarrow> nat \<Rightarrow> nat \<Rightarrow> Type \<Rightarrow> Type
     \<Rightarrow> Diagnostic list" where
  "operatorDiagnostics op l r s e lt rt =
     (if op = OpPlus then
        (if plusValid (Type.kind lt) (Type.kind rt) then []
         else [\<lparr>message = plusMessage lt rt, start = s, end' = e\<rparr>])
      else operandDiagnostics (leftAccepts op) (leftMessage op) l lt
             @ operandDiagnostics (rightAccepts op) (rightMessage op) r rt)"

text \<open>
  Modelled from the spec: the walk of \<open>checkExpression\<close> (module \<open>./checker\<close>,
  missing). It gives every expression a type and its diagnostics: those of the node
  itself, then those of its operands from left to right. The literals have the built-in
  types of their kinds (the \<open>BuiltIn\<close> of the tests, missing; taken to be the plain types
  \<open>number\<close>, \<open>string\<close> and \<open>boolean\<close> of the stub, whose names are those of the
  tests' messages) and \<open>nullType\<close>; an identifier that the scope does not bind is
  reported and has type \<open>anyType\<close>. The spec does not say which type a binary
  expression has: it is the parameter \<open>resultType\<close>.
\<close>

fun check ::
  "(BinaryOperator \<Rightarrow> Type \<Rightarrow> Type \<Rightarrow> Type) \<Rightarrow> Symbol SymbolTable \<Rightarrow> Expression
     \<Rightarrow> Type \<times> Diagnostic list" where
  "check resultType scope (Identifier n s e) =
     (case lookup scope n of
        None \<Rightarrow>
          (anyType, [\<lparr>message = quoted n @ '' is not defined'', start = s, end' = e\<rparr>])
      | Some symbol \<Rightarrow> (Symbol.type symbol, []))"
| "check resultType scope (NumericLiteral s e) = (number, [])"
| "check resultType scope (StringLiteral s e) = (string, [])"
| "check resultType scope (BooleanLiteral s e) = (boolean, [])"
| "check resultType scope (NullLiteral s e) = (nullType, [])"
| "check resultType scope (ObjectLiteral s e) = (objectType, [])"
| "check resultType scope (BinaryExpression op l r s e) =
     (let (lt, dl) = check resultType scope l;
          (rt, dr) = check resultType scope r
      in (resultType op lt rt, operatorDiagnostics op l r s e lt rt @ dl @ dr))"

text \<open>
  Modelled from the spec: \<open>checkExpression\<close>, from the root of an expression and a scope
  to the sequence of diagnostics.
\<close>

definition checkExpression ::
  "(BinaryOperator \<Rightarrow> Type \<Rightarrow> Type \<Rightarrow> Type) \<Rightarrow> Symbol SymbolTable \<Rightarrow> Expression
     \<Rightarrow> Diagnostic list" where
  "checkExpression resultType scope root = snd (check resultType scope root)"

text \<open>Modelled from the spec: the type that the checker gives an expression.\<close>

definition typeOf ::
  "(BinaryOperator \<Rightarrow> Type \<Rightarrow> Type \<Rightarrow> Type) \<Rightarrow> Symbol SymbolTable \<Rightarrow> Expression \<Rightarrow> Type" where
  "typeOf resultType scope root = fst (check resultType scope root)"

text \<open>A result typing for concrete evaluations: every binary expression has type \<open>any\<close>.\<close>

definition anyResult :: "BinaryOperator \<Rightarrow> Type \<Rightarrow> Type \<Rightarrow> Type" where
  "anyResult op lt rt = anyType"

text \<open>
  Modelled from the spec: section 4.4 has an unresolved operand "treated as Any for all
  subsequent rule evaluation in that subtree, to prevent cascading secondary diagnostics",
  and section 8 has no operator diagnostic in an expression whose operands are all Any.
  A rule further up sees the operand only through the type of the expression around it,
  so both sentences make \<open>any\<close> propagate: a binary expression with an operand of kind Any
  has type \<open>any\<close>. For operands of other kinds the spec gives no type, and the result
  typing stays a parameter.
\<close>

definition anyPropagating ::
  "(BinaryOperator \<Rightarrow> Type \<Rightarrow> Type \<Rightarrow> Type) \<Rightarrow> BinaryOperator \<Rightarrow> Type \<Rightarrow> Type \<Rightarrow> Type" where
  "anyPropagating resultType op lt rt =
     (if Type.kind lt = TypeKind.Any \<or> Type.kind rt = TypeKind.Any then anyType
      else resultType op lt rt)"



section \<open>Classification of host types\<close>

text \<open>
  C2. For every host type, \<open>TypeScriptType.kind\<close> tests the flags in the order Any,
  boolean-like, string-like, number-like, Symbol, Undefined, Null, and gives \<open>Other\<close> when
  none matches: it equals the first-match reading of the precedence list, whatever the
  flag table and however many bits are set.
\<close>

theorem kind_follows_precedence: "kind ts this = kind_by_precedence ts this"
  by (simp add: kind_def kind_by_precedence_def precedence_def Let_def)

text \<open>
  With the sample flag table: a type with the Any bit and a boolean-literal bit is \<open>Any\<close>,
  one with a boolean and a string bit is \<open>Boolean\<close>, one with a string-literal and a
  number bit is \<open>String\<close>, one with the Undefined and the Null bit is \<open>Undefined\<close>.
\<close>

lemma kind_examples:
  "kind sampleFlags (hostType 129 n) = TypeKind.Any"
  "kind sampleFlags (hostType 10 n) = TypeKind.Boolean"
  "kind sampleFlags (hostType 36 n) = TypeKind.String"
  "kind sampleFlags (hostType 6144 n) = TypeKind.Undefined"
  by (simp_all add: kind_def sampleFlags_def hostType_def)

text \<open>
  C10. \<open>TypeScriptType.kind\<close> never gives \<open>Object\<close> or \<open>Function\<close>, and a host type
  whose flags match none of the seven tests (Any, boolean-like, string-like, number-like,
  ESSymbol, Undefined, Null) is classified \<open>Other\<close>.
\<close>

theorem kind_never_Object_or_Function:
  "kind ts this \<noteq> TypeKind.Object \<and> kind ts this \<noteq> TypeKind.Function
   \<and> (flags (tsType this) AND TypeFlags.Any ts = 0
        \<and> flags (tsType this) AND (TypeFlags.Boolean ts OR TypeFlags.BooleanLike ts
              OR TypeFlags.BooleanLiteral ts) = 0
        \<and> flags (tsType this) AND (TypeFlags.String ts OR TypeFlags.StringLike ts
              OR TypeFlags.StringLiteral ts) = 0
        \<and> flags (tsType this) AND (TypeFlags.Number ts OR TypeFlags.NumberLike ts) = 0
        \<and> flags (tsType this) AND TypeFlags.ESSymbol ts = 0
        \<and> flags (tsType this) AND TypeFlags.Undefined ts = 0
        \<and> flags (tsType this) AND TypeFlags.Null ts = 0
      \<longrightarrow> kind ts this = TypeKind.Other)"
  by (simp add: kind_def Let_def)

text \<open>
  At a host type whose only flag is none of the tested ones (bit 15, the object flag of
  the TypeScript versions of the time), the premise holds and the kind is \<open>Other\<close>.
\<close>

theorem kind_never_Object_or_Function_witness:
  "32768 AND TypeFlags.Any sampleFlags = 0
   \<and> kind sampleFlags (hostType 32768 (Node (OtherSyntaxKind 0) 0 None [])) = TypeKind.Other
   \<and> kind sampleFlags (hostType 32768 (Node (OtherSyntaxKind 0) 0 None [])) \<noteq> TypeKind.Object
   \<and> kind sampleFlags (hostType 32768 (Node (OtherSyntaxKind 0) 0 None [])) \<noteq> TypeKind.Function"
  using kind_never_Object_or_Function
    [of sampleFlags "hostType 32768 (Node (OtherSyntaxKind 0) 0 None [])"]
  by (simp add: sampleFlags_def hostType_def)

section \<open>Loading the built-in types\<close>

text \<open>
  The walk of \<open>search\<close> over a tree whose declarations are all annotated ends without
  exception and is the dispatch run on the declarations of the tree, in walk order.
\<close>

lemma dispatch_all_append:
  "dispatch_all program (ds @ ds') this = dispatch_all program ds' (dispatch_all program ds this)"
  by (simp add: dispatch_all_def)

lemma dispatch_annotated:
  "type_text d \<noteq> None \<Longrightarrow> fst (dispatch program d this) = None"
  by (auto simp add: dispatch_def)

lemma search_dispatches:
  "list_all (\<lambda>d. type_text d \<noteq> None) (variableDeclarations n) \<Longrightarrow>
   search program n this = (None, dispatch_all program (variableDeclarations n) this)"
  "list_all (\<lambda>d. type_text d \<noteq> None) (variableDeclarations_list ns) \<Longrightarrow>
   forEachChild program ns this = (None, dispatch_all program (variableDeclarations_list ns) this)"
proof (induction program n this and program ns this rule: search_forEachChild.induct)
  case (1 program k p t cs this)
  show ?case
  proof (cases "k = VariableDeclaration")
    case False
    with 1 show ?thesis by simp
  next
    case True
    with 1(3) have t: "t \<noteq> None"
      and cs: "list_all (\<lambda>d. type_text d \<noteq> None) (variableDeclarations_list cs)"
      by simp_all
    let ?d = "Node k p t cs"
    obtain r where d: "dispatch program ?d this = (None, r)"
      using dispatch_annotated [of ?d program this] t
      by (cases "dispatch program ?d this") simp
    have "forEachChild program cs r =
            (None, dispatch_all program (variableDeclarations_list cs) r)"
      using 1(1) [OF True d [symmetric] refl cs] .
    with True d show ?thesis
      by (simp add: dispatch_all_def)
  qed
next
  case (2 program this)
  show ?case by (simp add: dispatch_all_def)
next
  case (3 program c cs this)
  from 3(3) have c: "list_all (\<lambda>d. type_text d \<noteq> None) (variableDeclarations c)"
    and cs: "list_all (\<lambda>d. type_text d \<noteq> None) (variableDeclarations_list cs)"
    by simp_all
  have s: "search program c this = (None, dispatch_all program (variableDeclarations c) this)"
    using 3(1) [OF c] .
  have "forEachChild program cs (dispatch_all program (variableDeclarations c) this) =
          (None, dispatch_all program (variableDeclarations_list cs)
                   (dispatch_all program (variableDeclarations c) this))"
    using 3(2) [OF s [symmetric] refl cs] .
  with s show ?case by (simp add: dispatch_all_append)
qed

lemma ensureLoadBuiltInTypes_dispatches:
  "\<not> cached this \<Longrightarrow> annotated program \<Longrightarrow>
   ensureLoadBuiltInTypes program this =
     (None, dispatch_all program (fixtureDeclarations program)
              (this\<lparr>cached := True, createProgram_calls := createProgram_calls this + 1\<rparr>))"
  by (simp add: ensureLoadBuiltInTypes_def annotated_def fixtureDeclarations_def
      search_dispatches)

lemma run_bodies_dom:
  "dom (cache (run_bodies program prop ks this)) = set ks \<union> dom (cache this)"
  by (induction ks arbitrary: this)
     (auto simp add: cache_set_def new_TypeScriptType_def)

lemma dispatch_dom:
  "type_text d = Some text \<Longrightarrow>
   dom (cache (snd (dispatch program d this))) =
     set (switch_no_break text clauses) \<union> dom (cache this)"
  by (simp add: dispatch_def run_bodies_dom)

lemma dispatch_dom_mono:
  "dom (cache this) \<subseteq> dom (cache (snd (dispatch program d this)))"
  by (cases "type_text d") (simp_all add: dispatch_def run_bodies_dom)

lemma dispatch_all_mono:
  "dom (cache this) \<subseteq> dom (cache (dispatch_all program ds this))"
proof (induction ds arbitrary: this)
  case Nil
  show ?case by (simp add: dispatch_all_def)
next
  case (Cons a ds)
  have "dom (cache this) \<subseteq> dom (cache (snd (dispatch program a this)))"
    by (rule dispatch_dom_mono)
  also have "\<dots> \<subseteq> dom (cache (dispatch_all program ds (snd (dispatch program a this))))"
    by (rule Cons.IH)
  finally show ?case by (simp add: dispatch_all_def)
qed

lemma dispatch_all_served:
  "d \<in> set ds \<Longrightarrow> type_text d = Some text \<Longrightarrow>
   set (switch_no_break text clauses) \<subseteq> dom (cache (dispatch_all program ds this))"
proof (induction ds arbitrary: this)
  case Nil
  then show ?case by simp
next
  case (Cons a ds)
  show ?case
  proof (cases "a = d")
    case True
    have "set (switch_no_break text clauses) \<subseteq> dom (cache (snd (dispatch program d this)))"
      using Cons.prems dispatch_dom [of d "text" program this] by simp
    also have "\<dots> \<subseteq> dom (cache (dispatch_all program ds (snd (dispatch program d this))))"
      by (rule dispatch_all_mono)
    finally show ?thesis using True by (simp add: dispatch_all_def)
  next
    case False
    with Cons.prems have "d \<in> set ds" by simp
    then have "set (switch_no_break text clauses)
        \<subseteq> dom (cache (dispatch_all program ds (snd (dispatch program a this))))"
      using Cons.IH Cons.prems by simp
    then show ?thesis by (simp add: dispatch_all_def)
  qed
qed

lemma load_serves:
  assumes "\<not> cached this" and "annotated program" and "declares program text"
  shows "set (switch_no_break text clauses)
           \<subseteq> dom (cache (snd (ensureLoadBuiltInTypes program this)))"
proof -
  from assms(3) obtain d where "d \<in> set (fixtureDeclarations program)"
    and "type_text d = Some text"
    by (auto simp add: declares_def list_ex_iff)
  then show ?thesis
    using assms(1,2)
    by (simp add: ensureLoadBuiltInTypes_dispatches dispatch_all_served)
qed

text \<open>
  C1. The built-in loading runs the dispatch on every variable declaration of the
  fixture, and the dispatch does not stop after a match. For a repository that has not
  loaded yet and a fixture whose declarations are all annotated,
  \<open>ensureLoadBuiltInTypes\<close> is the dispatch on each declaration in walk order; a
  declaration annotated \<open>string\<close> leaves the cache with entries for String, Number,
  Boolean and Symbol, one annotated \<open>number\<close> with entries for Number, Boolean and
  Symbol, one annotated \<open>boolean\<close> with entries for Boolean and Symbol, one annotated
  \<open>symbol\<close> with an entry for Symbol. On one declaration the dispatch sets exactly
  these entries, each to a new object made from the type of that declaration.
\<close>

theorem loading_falls_through:
  "(\<not> cached this \<and> annotated program \<longrightarrow>
      ensureLoadBuiltInTypes program this =
        (None, dispatch_all program (fixtureDeclarations program)
                 (this\<lparr>cached := True,
                       createProgram_calls := createProgram_calls this + 1\<rparr>))
      \<and> (declares program ''string'' \<longrightarrow>
           {TypeKind.String, TypeKind.Number, TypeKind.Boolean, TypeKind.Symbol}
             \<subseteq> dom (cache (snd (ensureLoadBuiltInTypes program this))))
      \<and> (declares program ''number'' \<longrightarrow>
           {TypeKind.Number, TypeKind.Boolean, TypeKind.Symbol}
             \<subseteq> dom (cache (snd (ensureLoadBuiltInTypes program this))))
      \<and> (declares program ''boolean'' \<longrightarrow>
           {TypeKind.Boolean, TypeKind.Symbol}
             \<subseteq> dom (cache (snd (ensureLoadBuiltInTypes program this))))
      \<and> (declares program ''symbol'' \<longrightarrow>
           {TypeKind.Symbol} \<subseteq> dom (cache (snd (ensureLoadBuiltInTypes program this)))))
   \<and> (type_text prop = Some ''string'' \<longrightarrow>
      dispatch program prop this =
        (None, this\<lparr>cache := (cache this)
                  (TypeKind.String \<mapsto> length (heap this),
                   TypeKind.Number \<mapsto> length (heap this) + 1,
                   TypeKind.Boolean \<mapsto> length (heap this) + 2,
                   TypeKind.Symbol \<mapsto> length (heap this) + 3),
                heap := heap this
                  @ replicate 4 (typeScriptType (getTypeAtLocation program) prop)\<rparr>))
   \<and> (type_text prop = Some ''number'' \<longrightarrow>
      dispatch program prop this =
        (None, this\<lparr>cache := (cache this)
                  (TypeKind.Number \<mapsto> length (heap this),
                   TypeKind.Boolean \<mapsto> length (heap this) + 1,
                   TypeKind.Symbol \<mapsto> length (heap this) + 2),
                heap := heap this
                  @ replicate 3 (typeScriptType (getTypeAtLocation program) prop)\<rparr>))
   \<and> (type_text prop = Some ''boolean'' \<longrightarrow>
      dispatch program prop this =
        (None, this\<lparr>cache := (cache this)
                  (TypeKind.Boolean \<mapsto> length (heap this),
                   TypeKind.Symbol \<mapsto> length (heap this) + 1),
                heap := heap this
                  @ replicate 2 (typeScriptType (getTypeAtLocation program) prop)\<rparr>))
   \<and> (type_text prop = Some ''symbol'' \<longrightarrow>
      dispatch program prop this =
        (None, this\<lparr>cache := (cache this)(TypeKind.Symbol \<mapsto> length (heap this)),
                heap := heap this
                  @ replicate 1 (typeScriptType (getTypeAtLocation program) prop)\<rparr>))"
proof -
  have served: "set (switch_no_break a clauses)
                  \<subseteq> dom (cache (snd (ensureLoadBuiltInTypes program this)))"
    if "\<not> cached this" "annotated program" "declares program a" for a
    using load_serves [OF that] .
  have load: "\<not> cached this \<and> annotated program \<longrightarrow>
      ensureLoadBuiltInTypes program this =
        (None, dispatch_all program (fixtureDeclarations program)
                 (this\<lparr>cached := True,
                       createProgram_calls := createProgram_calls this + 1\<rparr>))
      \<and> (declares program ''string'' \<longrightarrow>
           {TypeKind.String, TypeKind.Number, TypeKind.Boolean, TypeKind.Symbol}
             \<subseteq> dom (cache (snd (ensureLoadBuiltInTypes program this))))
      \<and> (declares program ''number'' \<longrightarrow>
           {TypeKind.Number, TypeKind.Boolean, TypeKind.Symbol}
             \<subseteq> dom (cache (snd (ensureLoadBuiltInTypes program this))))
      \<and> (declares program ''boolean'' \<longrightarrow>
           {TypeKind.Boolean, TypeKind.Symbol}
             \<subseteq> dom (cache (snd (ensureLoadBuiltInTypes program this))))
      \<and> (declares program ''symbol'' \<longrightarrow>
           {TypeKind.Symbol} \<subseteq> dom (cache (snd (ensureLoadBuiltInTypes program this))))"
    using served [of "''string''"] served [of "''number''"] served [of "''boolean''"]
      served [of "''symbol''"] ensureLoadBuiltInTypes_dispatches [of this program]
    by (simp add: switch_no_break_def clauses_def)
  have disp: "(type_text prop = Some ''string'' \<longrightarrow>
      dispatch program prop this =
        (None, this\<lparr>cache := (cache this)
                  (TypeKind.String \<mapsto> length (heap this),
                   TypeKind.Number \<mapsto> length (heap this) + 1,
                   TypeKind.Boolean \<mapsto> length (heap this) + 2,
                   TypeKind.Symbol \<mapsto> length (heap this) + 3),
                heap := heap this
                  @ replicate 4 (typeScriptType (getTypeAtLocation program) prop)\<rparr>))
   \<and> (type_text prop = Some ''number'' \<longrightarrow>
      dispatch program prop this =
        (None, this\<lparr>cache := (cache this)
                  (TypeKind.Number \<mapsto> length (heap this),
                   TypeKind.Boolean \<mapsto> length (heap this) + 1,
                   TypeKind.Symbol \<mapsto> length (heap this) + 2),
                heap := heap this
                  @ replicate 3 (typeScriptType (getTypeAtLocation program) prop)\<rparr>))
   \<and> (type_text prop = Some ''boolean'' \<longrightarrow>
      dispatch program prop this =
        (None, this\<lparr>cache := (cache this)
                  (TypeKind.Boolean \<mapsto> length (heap this),
                   TypeKind.Symbol \<mapsto> length (heap this) + 1),
                heap := heap this
                  @ replicate 2 (typeScriptType (getTypeAtLocation program) prop)\<rparr>))
   \<and> (type_text prop = Some ''symbol'' \<longrightarrow>
      dispatch program prop this =
        (None, this\<lparr>cache := (cache this)(TypeKind.Symbol \<mapsto> length (heap this)),
                heap := heap this
                  @ replicate 1 (typeScriptType (getTypeAtLocation program) prop)\<rparr>))"
    by (simp add: dispatch_def switch_no_break_def clauses_def cache_set_def
      new_TypeScriptType_def typeScriptType_def numeral_eq_Suc)
  from load disp show ?thesis by blast
qed

lemmas load_defs =
  ensureLoadBuiltInTypes_def fixture_def variableStatement_def
  new_TypeScriptTypeRepository_def dispatch_def switch_no_break_def clauses_def
  cache_set_def new_TypeScriptType_def annotated_def declares_def fixtureDeclarations_def

text \<open>
  On a new repository: the load of the fixture with the single \<open>string\<close> declaration
  fills all four entries; after the load of the fixture that declares a \<open>number\<close>
  before a \<open>string\<close>, the objects cached for Number, Boolean and Symbol have the host
  type of the \<open>string\<close> declaration, which \<open>kind\<close> classifies as String.
\<close>

theorem loading_falls_through_witness:
  "\<not> cached (new_TypeScriptTypeRepository [])
   \<and> annotated oneDeclaration \<and> declares oneDeclaration ''string''
   \<and> {TypeKind.String, TypeKind.Number, TypeKind.Boolean, TypeKind.Symbol}
        \<subseteq> dom (cache (snd (ensureLoadBuiltInTypes oneDeclaration
                                (new_TypeScriptTypeRepository []))))
   \<and> map (cache (snd (ensureLoadBuiltInTypes oneDeclaration
                        (new_TypeScriptTypeRepository []))))
        [TypeKind.String, TypeKind.Number, TypeKind.Boolean, TypeKind.Symbol]
      = [Some 0, Some 1, Some 2, Some 3]
   \<and> map (\<lambda>k. map_option
                 (\<lambda>r. kind sampleFlags
                        (heap (snd (ensureLoadBuiltInTypes numberThenString
                                      (new_TypeScriptTypeRepository []))) ! r))
                 (cache (snd (ensureLoadBuiltInTypes numberThenString
                                (new_TypeScriptTypeRepository []))) k))
        [TypeKind.String, TypeKind.Number, TypeKind.Boolean, TypeKind.Symbol]
      = [Some TypeKind.String, Some TypeKind.String, Some TypeKind.String,
         Some TypeKind.String]"
proof -
  have pre: "\<not> cached (new_TypeScriptTypeRepository [])
      \<and> annotated oneDeclaration \<and> declares oneDeclaration ''string''"
    by (simp add: oneDeclaration_def load_defs)
  have one: "map (cache (snd (ensureLoadBuiltInTypes oneDeclaration
                        (new_TypeScriptTypeRepository []))))
        [TypeKind.String, TypeKind.Number, TypeKind.Boolean, TypeKind.Symbol]
      = [Some 0, Some 1, Some 2, Some 3]"
    by (simp add: oneDeclaration_def load_defs)
  have two: "map (\<lambda>k. map_option
                 (\<lambda>r. kind sampleFlags
                        (heap (snd (ensureLoadBuiltInTypes numberThenString
                                      (new_TypeScriptTypeRepository []))) ! r))
                 (cache (snd (ensureLoadBuiltInTypes numberThenString
                                (new_TypeScriptTypeRepository []))) k))
        [TypeKind.String, TypeKind.Number, TypeKind.Boolean, TypeKind.Symbol]
      = [Some TypeKind.String, Some TypeKind.String, Some TypeKind.String,
         Some TypeKind.String]"
    by (simp add: numberThenString_def load_defs kind_def sampleFlags_def Let_def)
  have "{TypeKind.String, TypeKind.Number, TypeKind.Boolean, TypeKind.Symbol}
        \<subseteq> dom (cache (snd (ensureLoadBuiltInTypes oneDeclaration
                                (new_TypeScriptTypeRepository []))))"
    using pre loading_falls_through [of "new_TypeScriptTypeRepository []" oneDeclaration]
    by blast
  with pre one two show ?thesis by blast
qed

section \<open>The repository: what \<open>getTypeByKind\<close> returns\<close>

text \<open>The walk over the fixture touches only the cache and the heap.\<close>

lemma cache_set_fields:
  "cached (cache_set program prop k this) = cached this"
  "createProgram_calls (cache_set program prop k this) = createProgram_calls this"
  by (simp_all add: cache_set_def new_TypeScriptType_def)

lemma run_bodies_fields:
  "cached (run_bodies program prop ks this) = cached this
   \<and> createProgram_calls (run_bodies program prop ks this) = createProgram_calls this"
  by (induction ks arbitrary: this) (simp_all add: cache_set_fields)

lemma dispatch_fields:
  "cached (snd (dispatch program prop this)) = cached this
   \<and> createProgram_calls (snd (dispatch program prop this)) = createProgram_calls this"
  by (simp add: dispatch_def run_bodies_fields split: option.splits)

lemma search_fields:
  "cached (snd (search program n this)) = cached this
   \<and> createProgram_calls (snd (search program n this)) = createProgram_calls this"
  "cached (snd (forEachChild program ns this)) = cached this
   \<and> createProgram_calls (snd (forEachChild program ns this)) = createProgram_calls this"
proof (induction program n this and program ns this rule: search_forEachChild.induct)
  case (1 program k p t cs this)
  show ?case
  proof (cases "k = VariableDeclaration")
    case False
    with 1 show ?thesis by simp
  next
    case True
    obtain r this' where d: "dispatch program (Node k p t cs) this = (r, this')"
      by (cases "dispatch program (Node k p t cs) this")
    have f: "cached this' = cached this \<and> createProgram_calls this' = createProgram_calls this"
      using dispatch_fields [of program "Node k p t cs" this] d by simp
    show ?thesis
    proof (cases r)
      case None
      with True d f 1(1) show ?thesis by simp
    next
      case (Some e)
      with True d f show ?thesis by simp
    qed
  qed
next
  case (2 program this)
  show ?case by simp
next
  case (3 program c cs this)
  obtain r this' where d: "search program c this = (r, this')"
    by (cases "search program c this")
  have f: "cached this' = cached this \<and> createProgram_calls this' = createProgram_calls this"
    using 3(1) d by simp
  show ?case
  proof (cases r)
    case None
    with d f 3(2) show ?thesis by simp
  next
    case (Some e)
    with d f show ?thesis by simp
  qed
qed

lemma ensureLoadBuiltInTypes_cached:
  "cached this \<Longrightarrow> ensureLoadBuiltInTypes program this = (None, this)"
  by (simp add: ensureLoadBuiltInTypes_def)

lemma ensureLoadBuiltInTypes_fields:
  "cached (snd (ensureLoadBuiltInTypes program this))
   \<and> createProgram_calls (snd (ensureLoadBuiltInTypes program this)) =
       (if cached this then createProgram_calls this else createProgram_calls this + 1)"
  by (simp add: ensureLoadBuiltInTypes_def search_fields)

lemma getTypeByKind_cached:
  "cached this \<Longrightarrow> snd (getTypeByKind program k this) = this"
  by (cases k) (simp_all add: getTypeByKind_def ensureLoadBuiltInTypes_cached)


lemma getTypeByKind_snd:
  "snd (getTypeByKind program k this) =
     (if k \<in> {TypeKind.Other, TypeKind.Any, TypeKind.Null, TypeKind.Undefined} then this
      else snd (ensureLoadBuiltInTypes program this))"
  by (cases k; cases "ensureLoadBuiltInTypes program this"; cases "fst (ensureLoadBuiltInTypes program this)")
     (simp_all add: getTypeByKind_def)










section \<open>Lazy caches\<close>

text \<open>Once the flag is set, no call changes the flag, the cache or the count of compiles.\<close>

lemma run_cached:
  "cached this \<Longrightarrow>
   cached (run program host cs this) \<and> cache (run program host cs this) = cache this
   \<and> createProgram_calls (run program host cs this) = createProgram_calls this"
proof (induction cs arbitrary: this)
  case Nil
  then show ?case by simp
next
  case (Cons c cs)
  then show ?case by (cases c) (simp_all add: getTypeByKind_cached)
qed

lemma getTypeByKind_fields:
  assumes "createProgram_calls this \<le> 1" and "cached this \<or> createProgram_calls this = 0"
  shows "createProgram_calls (snd (getTypeByKind program k this)) \<le> 1
     \<and> (cached (snd (getTypeByKind program k this)) \<or>
          createProgram_calls (snd (getTypeByKind program k this)) = 0)"
proof (cases "cached this")
  case True
  with assms show ?thesis by (simp add: getTypeByKind_cached)
next
  case False
  with assms have z: "createProgram_calls this = 0" by simp
  obtain r this' where e: "ensureLoadBuiltInTypes program this = (r, this')"
    by (cases "ensureLoadBuiltInTypes program this")
  have f: "cached this' \<and> createProgram_calls this' = 1"
    using ensureLoadBuiltInTypes_fields [of program this] e False z by simp
  show ?thesis
    using e f z False
    by (cases k; cases r) (simp_all add: getTypeByKind_def)
qed

lemma run_compiles_once:
  "createProgram_calls this \<le> 1 \<Longrightarrow> cached this \<or> createProgram_calls this = 0 \<Longrightarrow>
   createProgram_calls (run program host cs this) \<le> 1"
proof (induction cs arbitrary: this)
  case Nil
  then show ?case by simp
next
  case (Cons c cs)
  show ?case
  proof (cases c)
    case (GetTypeByKind k)
    with Cons.prems getTypeByKind_fields [of this program k] Cons.IH show ?thesis by simp
  next
    case (Members r)
    with Cons.prems Cons.IH [of "this\<lparr>heap := snd (members host r (heap this))\<rparr>"]
    show ?thesis by simp
  next
    case (CallSignatures r)
    with Cons.prems Cons.IH [of "this\<lparr>heap := snd (callSignatures host r (heap this))\<rparr>"]
    show ?thesis by simp
  qed
qed

text \<open>
  A call that returns a type either asked for a singleton, or leaves the flag set and
  returned the cache's entry.
\<close>

lemma getTypeByKind_Inr:
  assumes "fst (getTypeByKind program k this) = Inr t"
  shows "(k \<in> {TypeKind.Any, TypeKind.Null, TypeKind.Undefined}
            \<and> (\<forall>p' this'. getTypeByKind p' k this' = (Inr t, this')))
         \<or> (cached (snd (getTypeByKind program k this))
            \<and> assert_found k (cache (snd (getTypeByKind program k this)) k) = Inr t
            \<and> k \<in> {TypeKind.String, TypeKind.Number, TypeKind.Boolean, TypeKind.Symbol})"
proof -
  obtain r this' where e: "ensureLoadBuiltInTypes program this = (r, this')"
    by (cases "ensureLoadBuiltInTypes program this")
  have f: "cached this'"
    using ensureLoadBuiltInTypes_fields [of program this] e by simp
  show ?thesis
    using assms e f
    by (cases k; cases r) (simp_all add: getTypeByKind_def)
qed

lemma getTypeByKind_scalar_cached:
  "cached this \<Longrightarrow>
   k \<in> {TypeKind.String, TypeKind.Number, TypeKind.Boolean, TypeKind.Symbol} \<Longrightarrow>
   getTypeByKind program k this = (assert_found k (cache this k), this)"
  by (auto simp add: getTypeByKind_def ensureLoadBuiltInTypes_cached)

lemma getTypeByKind_stable:
  assumes "fst (getTypeByKind program k this) = Inr t"
  shows "getTypeByKind program' k (run program' host cs (snd (getTypeByKind program k this))) =
           (Inr t, run program' host cs (snd (getTypeByKind program k this)))"
proof -
  let ?this' = "snd (getTypeByKind program k this)"
  let ?this'' = "run program' host cs ?this'"
  from getTypeByKind_Inr [OF assms] show ?thesis
  proof
    assume "k \<in> {TypeKind.Any, TypeKind.Null, TypeKind.Undefined}
            \<and> (\<forall>p' this'. getTypeByKind p' k this' = (Inr t, this'))"
    then show ?thesis by simp
  next
    assume a: "cached ?this' \<and> assert_found k (cache ?this' k) = Inr t
            \<and> k \<in> {TypeKind.String, TypeKind.Number, TypeKind.Boolean, TypeKind.Symbol}"
    then have c: "cached ?this'' \<and> cache ?this'' = cache ?this'"
      using run_cached [of ?this' program' host cs] by simp
    then show ?thesis
      using a getTypeByKind_scalar_cached [of ?this'' k program'] by simp
  qed
qed

text \<open>
  The heap only grows: every operation leaves the objects that exist where they are, and
  a memo field that is set stays as it is under every operation.
\<close>

lemma new_TypeScriptTypes_prefix:
  "\<exists>ys. snd (new_TypeScriptTypes ts n h) = h @ ys"
proof (induction ts arbitrary: h)
  case Nil
  show ?case by simp
next
  case (Cons t ts)
  let ?h1 = "snd (new_TypeScriptType t n h)"
  obtain ys where "snd (new_TypeScriptTypes ts n ?h1) = ?h1 @ ys"
    using Cons.IH by blast
  moreover have "snd (new_TypeScriptTypes (t # ts) n h) = snd (new_TypeScriptTypes ts n ?h1)"
    by (simp add: new_TypeScriptType_def split: prod.splits)
  ultimately show ?case by (simp add: new_TypeScriptType_def)
qed

lemma map_signatures_prefix:
  "\<exists>ys. snd (map_signatures host n ss h) = h @ ys"
proof (induction ss arbitrary: h)
  case Nil
  show ?case by simp
next
  case (Cons s ss)
  let ?ps = "map (\<lambda>p. getTypeOfSymbolAtLocation host p n) (getParameters host s)"
  obtain args h1 where a: "new_TypeScriptTypes ?ps n h = (args, h1)"
    by (cases "new_TypeScriptTypes ?ps n h")
  obtain ys1 where p1: "h1 = h @ ys1"
    using new_TypeScriptTypes_prefix [of ?ps n h] a by auto
  let ?h2 = "snd (new_TypeScriptType (getReturnType host s) n h1)"
  obtain ys3 where c: "snd (map_signatures host n ss ?h2) = ?h2 @ ys3"
    using Cons.IH by blast
  have "snd (map_signatures host n (s # ss) h) = snd (map_signatures host n ss ?h2)"
    using a by (simp add: new_TypeScriptType_def split: prod.splits)
  with c p1 show ?case by (simp add: new_TypeScriptType_def)
qed

lemma run_bodies_heap:
  "\<exists>ys. heap (run_bodies program prop ks this) = heap this @ ys"
proof (induction ks arbitrary: this)
  case Nil
  show ?case by simp
next
  case (Cons k ks)
  obtain ys where "heap (run_bodies program prop ks (cache_set program prop k this)) =
                     heap (cache_set program prop k this) @ ys"
    using Cons.IH by blast
  then show ?case by (simp add: cache_set_def new_TypeScriptType_def)
qed

lemma dispatch_heap:
  "\<exists>ys. heap (snd (dispatch program prop this)) = heap this @ ys"
  by (cases "type_text prop") (simp_all add: dispatch_def run_bodies_heap)

lemma search_heap:
  "\<exists>ys. heap (snd (search program n this)) = heap this @ ys"
  "\<exists>ys. heap (snd (forEachChild program ns this)) = heap this @ ys"
proof (induction program n this and program ns this rule: search_forEachChild.induct)
  case (1 program k p t cs this)
  show ?case
  proof (cases "k = VariableDeclaration")
    case False
    with 1(2) show ?thesis by simp
  next
    case True
    obtain r this' where d: "dispatch program (Node k p t cs) this = (r, this')"
      by (cases "dispatch program (Node k p t cs) this")
    obtain ys where h: "heap this' = heap this @ ys"
      using dispatch_heap [of program "Node k p t cs" this] d by auto
    show ?thesis
    proof (cases r)
      case None
      obtain zs where "heap (snd (forEachChild program cs this')) = heap this' @ zs"
        using 1(1) [OF True d [symmetric] None] by blast
      with True d None h show ?thesis by simp
    next
      case (Some e)
      with True d h show ?thesis by simp
    qed
  qed
next
  case (2 program this)
  show ?case by simp
next
  case (3 program c cs this)
  obtain r this' where d: "search program c this = (r, this')"
    by (cases "search program c this")
  obtain ys where h: "heap this' = heap this @ ys"
    using 3(1) d by auto
  show ?case
  proof (cases r)
    case None
    obtain zs where "heap (snd (forEachChild program cs this')) = heap this' @ zs"
      using 3(2) [OF d [symmetric] None] by blast
    with d None h show ?thesis by simp
  next
    case (Some e)
    with d h show ?thesis by simp
  qed
qed

lemma ensureLoadBuiltInTypes_heap:
  "\<exists>ys. heap (snd (ensureLoadBuiltInTypes program this)) = heap this @ ys"
proof (cases "cached this")
  case True
  then show ?thesis by (simp add: ensureLoadBuiltInTypes_def)
next
  case False
  let ?s = "this\<lparr>cached := True, createProgram_calls := createProgram_calls this + 1\<rparr>"
  obtain ys where
    "heap (snd (forEachChild program (children (getSourceFile program)) ?s)) = heap ?s @ ys"
    using search_heap(2) by blast
  with False show ?thesis by (simp add: ensureLoadBuiltInTypes_def)
qed

lemma getTypeByKind_heap:
  "\<exists>ys. heap (snd (getTypeByKind program k this)) = heap this @ ys"
  by (simp add: getTypeByKind_snd ensureLoadBuiltInTypes_heap)

lemma members_keeps_members_memo:
  assumes "i < length h" and "members_memo (h ! i) = Some tb"
  shows "i < length (snd (members host r h))
         \<and> members_memo (snd (members host r h) ! i) = Some tb"
proof (cases "members_memo (h ! r)")
  case (Some tb')
  with assms show ?thesis by (simp add: members_def)
next
  case None
  with assms have "r \<noteq> i" by auto
  with assms None show ?thesis by (simp add: members_def Let_def)
qed

lemma members_keeps_callSignatures_memo:
  assumes "i < length h" and "callSignatures_memo (h ! i) = Some sg"
  shows "i < length (snd (members host r h))
         \<and> callSignatures_memo (snd (members host r h) ! i) = Some sg"
proof (cases "members_memo (h ! r)")
  case (Some tb')
  with assms show ?thesis by (simp add: members_def)
next
  case None
  with assms show ?thesis
    by (cases "r = i") (simp_all add: members_def Let_def)
qed

lemma callSignatures_keeps_members_memo:
  assumes "i < length h" and "members_memo (h ! i) = Some tb"
  shows "i < length (snd (callSignatures host r h))
         \<and> members_memo (snd (callSignatures host r h) ! i) = Some tb"
proof (cases "callSignatures_memo (h ! r)")
  case (Some sg)
  with assms show ?thesis by (simp add: callSignatures_def)
next
  case None
  obtain sigs h' where m:
    "map_signatures host (node (h ! r)) (getCallSignatures host (tsType (h ! r))) h
       = (sigs, h')"
    by (cases "map_signatures host (node (h ! r)) (getCallSignatures host (tsType (h ! r))) h")
  obtain ys where p: "h' = h @ ys"
    using map_signatures_prefix [of host "node (h ! r)"
        "getCallSignatures host (tsType (h ! r))" h] m by auto
  have r: "snd (callSignatures host r h) =
             h'[r := (h' ! r)\<lparr>callSignatures_memo := Some sigs\<rparr>]"
    using None m by (simp add: callSignatures_def)
  from assms p have "i < length h'" and "members_memo (h' ! i) = Some tb"
    by (simp_all add: nth_append)
  then show ?thesis
    unfolding r by (cases "r = i") simp_all
qed

lemma callSignatures_keeps_callSignatures_memo:
  assumes "i < length h" and "callSignatures_memo (h ! i) = Some sg"
  shows "i < length (snd (callSignatures host r h))
         \<and> callSignatures_memo (snd (callSignatures host r h) ! i) = Some sg"
proof (cases "callSignatures_memo (h ! r)")
  case (Some sg')
  with assms show ?thesis by (simp add: callSignatures_def)
next
  case None
  with assms have ne: "r \<noteq> i" by auto
  obtain sigs h' where m:
    "map_signatures host (node (h ! r)) (getCallSignatures host (tsType (h ! r))) h
       = (sigs, h')"
    by (cases "map_signatures host (node (h ! r)) (getCallSignatures host (tsType (h ! r))) h")
  obtain ys where p: "h' = h @ ys"
    using map_signatures_prefix [of host "node (h ! r)"
        "getCallSignatures host (tsType (h ! r))" h] m by auto
  have r: "snd (callSignatures host r h) =
             h'[r := (h' ! r)\<lparr>callSignatures_memo := Some sigs\<rparr>]"
    using None m by (simp add: callSignatures_def)
  from assms p have "i < length h'" and "callSignatures_memo (h' ! i) = Some sg"
    by (simp_all add: nth_append)
  with ne show ?thesis
    unfolding r by simp
qed

lemma run_keeps_memos:
  "i < length (heap this) \<Longrightarrow>
   (members_memo (heap this ! i) = Some tb \<longrightarrow>
      members_memo (heap (run program host cs this) ! i) = Some tb)
   \<and> (callSignatures_memo (heap this ! i) = Some sg \<longrightarrow>
      callSignatures_memo (heap (run program host cs this) ! i) = Some sg)
   \<and> i < length (heap (run program host cs this))"
proof (induction cs arbitrary: this)
  case Nil
  then show ?case by simp
next
  case (Cons c cs)
  show ?case
  proof (cases c)
    case (GetTypeByKind k)
    let ?s = "snd (getTypeByKind program k this)"
    obtain ys where "heap ?s = heap this @ ys"
      using getTypeByKind_heap by blast
    with Cons.prems have "i < length (heap ?s)" and "heap ?s ! i = heap this ! i"
      by (simp_all add: nth_append)
    with Cons.IH [of ?s] GetTypeByKind show ?thesis by simp
  next
    case (Members r)
    let ?s = "this\<lparr>heap := snd (members host r (heap this))\<rparr>"
    have "i < length (heap ?s)"
      using Cons.prems by (simp add: members_def Let_def split: option.splits)
    with Cons.IH [of ?s] Members Cons.prems
      members_keeps_members_memo [of i "heap this" tb host r]
      members_keeps_callSignatures_memo [of i "heap this" sg host r]
    show ?thesis by simp
  next
    case (CallSignatures r)
    let ?s = "this\<lparr>heap := snd (callSignatures host r (heap this))\<rparr>"
    obtain sigs h' where m:
      "map_signatures host (node (heap this ! r))
         (getCallSignatures host (tsType (heap this ! r))) (heap this) = (sigs, h')"
      by (cases "map_signatures host (node (heap this ! r))
                   (getCallSignatures host (tsType (heap this ! r))) (heap this)")
    obtain ys where "h' = heap this @ ys"
      using map_signatures_prefix [of host "node (heap this ! r)"
          "getCallSignatures host (tsType (heap this ! r))" "heap this"] m by auto
    with m have "i < length (heap ?s)"
      using Cons.prems by (simp add: callSignatures_def split: option.splits)
    with Cons.IH [of ?s] CallSignatures Cons.prems
      callSignatures_keeps_members_memo [of i "heap this" tb host r]
      callSignatures_keeps_callSignatures_memo [of i "heap this" sg host r]
    show ?thesis by simp
  qed
qed

lemma members_from_memo:
  "members_memo (h ! i) = Some tb \<Longrightarrow> members host i h = (tb, h)"
  by (simp add: members_def)

lemma callSignatures_from_memo:
  "callSignatures_memo (h ! i) = Some sg \<Longrightarrow> callSignatures host i h = (sg, h)"
  by (simp add: callSignatures_def)

lemma members_sets_memo:
  "i < length h \<Longrightarrow>
   members_memo (snd (members host i h) ! i) = Some (fst (members host i h))
   \<and> i < length (snd (members host i h))"
  by (cases "members_memo (h ! i)") (simp_all add: members_def Let_def)

lemma callSignatures_sets_memo:
  assumes "i < length h"
  shows "callSignatures_memo (snd (callSignatures host i h) ! i) =
           Some (fst (callSignatures host i h))
         \<and> i < length (snd (callSignatures host i h))"
proof (cases "callSignatures_memo (h ! i)")
  case (Some sg)
  with assms show ?thesis by (simp add: callSignatures_def)
next
  case None
  obtain sigs h' where m:
    "map_signatures host (node (h ! i)) (getCallSignatures host (tsType (h ! i))) h
       = (sigs, h')"
    by (cases "map_signatures host (node (h ! i)) (getCallSignatures host (tsType (h ! i))) h")
  obtain ys where "h' = h @ ys"
    using map_signatures_prefix [of host "node (h ! i)"
        "getCallSignatures host (tsType (h ! i))" h] m by auto
  with assms have "i < length h'" by simp
  with None m show ?thesis by (simp add: callSignatures_def)
qed

lemma members_stable:
  assumes "i < length (heap repo)"
  shows "members host2 i
           (heap (run program host1 cs (repo\<lparr>heap := snd (members host i (heap repo))\<rparr>))) =
         (fst (members host i (heap repo)),
          heap (run program host1 cs (repo\<lparr>heap := snd (members host i (heap repo))\<rparr>)))"
proof -
  let ?s = "repo\<lparr>heap := snd (members host i (heap repo))\<rparr>"
  have "members_memo (heap ?s ! i) = Some (fst (members host i (heap repo)))"
    and "i < length (heap ?s)"
    using members_sets_memo [OF assms, of host] by simp_all
  then have "members_memo (heap (run program host1 cs ?s) ! i) =
               Some (fst (members host i (heap repo)))"
    using run_keeps_memos [of i ?s "fst (members host i (heap repo))" program host1 cs]
    by simp
  then show ?thesis by (rule members_from_memo)
qed

lemma callSignatures_stable:
  assumes "i < length (heap repo)"
  shows "callSignatures host2 i
           (heap (run program host1 cs
                    (repo\<lparr>heap := snd (callSignatures host i (heap repo))\<rparr>))) =
         (fst (callSignatures host i (heap repo)),
          heap (run program host1 cs
                  (repo\<lparr>heap := snd (callSignatures host i (heap repo))\<rparr>)))"
proof -
  let ?s = "repo\<lparr>heap := snd (callSignatures host i (heap repo))\<rparr>"
  have "callSignatures_memo (heap ?s ! i) = Some (fst (callSignatures host i (heap repo)))"
    and "i < length (heap ?s)"
    using callSignatures_sets_memo [OF assms, of host] by simp_all
  then have "callSignatures_memo (heap (run program host1 cs ?s) ! i) =
               Some (fst (callSignatures host i (heap repo)))"
    using run_keeps_memos [of i ?s _ program host1 cs
        "fst (callSignatures host i (heap repo))"]
    by simp
  then show ?thesis by (rule callSignatures_from_memo)
qed

text \<open>
  C9. The lazy caches are filled at most once and then stay. For every
  \<open>TypeScriptType\<close> object of a repository's heap: after a first access of \<open>members\<close>
  (of \<open>callSignatures\<close>), every later access, after any sequence of calls on the
  repository and on the objects of its heap, this object included, and whatever the host
  would answer by then, returns what the first access returned and leaves the heap as it
  is. For every new repository, any sequence of calls makes at most one call of
  \<open>ts.createProgram\<close>. When \<open>getTypeByKind\<close> has returned a type for a kind, a later
  call for that kind, after any calls in between and with any fixture program, returns
  the same type and changes nothing.
\<close>

theorem lazy_caches_stable:
  "(this < length (heap repo) \<longrightarrow>
      members host2 this
        (heap (run program host1 cs (repo\<lparr>heap := snd (members host this (heap repo))\<rparr>))) =
      (fst (members host this (heap repo)),
       heap (run program host1 cs (repo\<lparr>heap := snd (members host this (heap repo))\<rparr>))))
   \<and> (this < length (heap repo) \<longrightarrow>
      callSignatures host2 this
        (heap (run program host1 cs
                 (repo\<lparr>heap := snd (callSignatures host this (heap repo))\<rparr>))) =
      (fst (callSignatures host this (heap repo)),
       heap (run program host1 cs
               (repo\<lparr>heap := snd (callSignatures host this (heap repo))\<rparr>))))
   \<and> createProgram_calls (run program host cs (new_TypeScriptTypeRepository h)) \<le> 1
   \<and> (fst (getTypeByKind program k repo) = Inr t \<longrightarrow>
        getTypeByKind program' k (run program' host cs (snd (getTypeByKind program k repo))) =
          (Inr t, run program' host cs (snd (getTypeByKind program k repo))))"
proof -
  have "createProgram_calls (run program host cs (new_TypeScriptTypeRepository h)) \<le> 1"
    by (rule run_compiles_once) (simp_all add: new_TypeScriptTypeRepository_def)
  then show ?thesis
    using members_stable [of this repo host2 program host1 cs host]
      callSignatures_stable [of this repo host2 program host1 cs host]
      getTypeByKind_stable [of program k repo t program' host cs]
    by blast
qed

text \<open>
  On the sample repository, with accesses of both getters of object 0 and a load in
  between: the later access of \<open>members\<close> and of \<open>callSignatures\<close>, made with a host
  that would answer differently, returns the first host's answers and leaves the heap as
  it is; \<open>Number\<close> is served by object 5, and by the same object after the calls, with
  a fixture program that has no declaration at all.
\<close>

theorem lazy_caches_stable_witness:
  "0 < length (heap sampleRepository)
   \<and> fst (getTypeByKind fixture TypeKind.Number sampleRepository) = Inr (Instance 5)
   \<and> members (sampleHost 7) 0
        (heap (run fixture (sampleHost 3) sampleCalls
                 (sampleRepository
                    \<lparr>heap := snd (members (sampleHost 0) 0 (heap sampleRepository))\<rparr>))) =
       (SimpleSymbolTable
          [TypeScriptSymbol (TsSymbol 0) (Node (OtherSyntaxKind 0) 0 None []),
           TypeScriptSymbol (TsSymbol 1) (Node (OtherSyntaxKind 0) 0 None [])],
        heap (run fixture (sampleHost 3) sampleCalls
                (sampleRepository
                   \<lparr>heap := snd (members (sampleHost 0) 0 (heap sampleRepository))\<rparr>)))
   \<and> callSignatures (sampleHost 7) 0
        (heap (run fixture (sampleHost 3) sampleCalls
                 (sampleRepository
                    \<lparr>heap :=
                       snd (callSignatures (sampleHost 0) 0 (heap sampleRepository))\<rparr>))) =
       ([CallSignature (SimpleTypeArguments [1]) 2],
        heap (run fixture (sampleHost 3) sampleCalls
                (sampleRepository
                   \<lparr>heap :=
                      snd (callSignatures (sampleHost 0) 0 (heap sampleRepository))\<rparr>)))
   \<and> fst (getTypeByKind emptyFixture TypeKind.Number
            (run emptyFixture (sampleHost 0) sampleCalls
               (snd (getTypeByKind fixture TypeKind.Number sampleRepository))))
       = Inr (Instance 5)"
proof -
  have pre: "0 < length (heap sampleRepository)"
    by (simp add: sampleRepository_def new_TypeScriptTypeRepository_def)
  have first: "fst (members (sampleHost 0) 0 (heap sampleRepository)) =
       SimpleSymbolTable
          [TypeScriptSymbol (TsSymbol 0) (Node (OtherSyntaxKind 0) 0 None []),
           TypeScriptSymbol (TsSymbol 1) (Node (OtherSyntaxKind 0) 0 None [])]"
    by (simp add: sampleRepository_def new_TypeScriptTypeRepository_def members_def
        sampleHost_def hostType_def Let_def)
  have first': "fst (callSignatures (sampleHost 0) 0 (heap sampleRepository)) =
       [CallSignature (SimpleTypeArguments [1]) 2]"
    by (simp add: sampleRepository_def new_TypeScriptTypeRepository_def callSignatures_def
        sampleHost_def hostType_def new_TypeScriptType_def Let_def)
  have served: "fst (getTypeByKind fixture TypeKind.Number sampleRepository) = Inr (Instance 5)"
    by (simp add: sampleRepository_def load_defs getTypeByKind_def assert_found_def)
  note general =
    lazy_caches_stable [of 0 sampleRepository "sampleHost 7" fixture "sampleHost 3"
      sampleCalls "sampleHost 0" "[hostType 2 (Node (OtherSyntaxKind 0) 0 None [])]"
      TypeKind.Number "Instance 5" emptyFixture]
  have m: "members (sampleHost 7) 0
        (heap (run fixture (sampleHost 3) sampleCalls
                 (sampleRepository
                    \<lparr>heap := snd (members (sampleHost 0) 0 (heap sampleRepository))\<rparr>))) =
       (fst (members (sampleHost 0) 0 (heap sampleRepository)),
        heap (run fixture (sampleHost 3) sampleCalls
                (sampleRepository
                   \<lparr>heap := snd (members (sampleHost 0) 0 (heap sampleRepository))\<rparr>)))"
    using pre general by blast
  show ?thesis
    using pre first first' served general m by simp
qed

section \<open>The checker's rules\<close>

lemma checkExpression_binary:
  "checkExpression resultType scope (BinaryExpression op l r s e) =
     operatorDiagnostics op l r s e (typeOf resultType scope l) (typeOf resultType scope r)
       @ checkExpression resultType scope l @ checkExpression resultType scope r"
  by (simp add: checkExpression_def typeOf_def split: prod.splits)

lemma operandDiagnostics_any:
  "operandDiagnostics (leftAccepts op) msg x anyType = []"
  "operandDiagnostics (rightAccepts op) msg x anyType = []"
  by (cases op; simp add: operandDiagnostics_def anyType_def)+

text \<open>
  C3. For every expression \<open>L + R\<close> the \<open>+\<close> node adds no diagnostic when both operand
  kinds are Number, or either is String, or either is Any; otherwise it adds exactly one,
  with the message "The binary operator '+' cannot be applied to type '<L>' and '<R>'"
  and the range of the whole binary expression. The rest of the result is what the
  operands give.
\<close>

theorem plus_rule:
  "checkExpression resultType scope (BinaryExpression OpPlus l r s e) =
     (if Type.kind (typeOf resultType scope l) = TypeKind.Number
           \<and> Type.kind (typeOf resultType scope r) = TypeKind.Number
         \<or> Type.kind (typeOf resultType scope l) = TypeKind.String
         \<or> Type.kind (typeOf resultType scope r) = TypeKind.String
         \<or> Type.kind (typeOf resultType scope l) = TypeKind.Any
         \<or> Type.kind (typeOf resultType scope r) = TypeKind.Any
      then []
      else [\<lparr>message =
               ''The binary operator '+' cannot be applied to type ''
                 @ quoted (Type.name (typeOf resultType scope l)) @ '' and ''
                 @ quoted (Type.name (typeOf resultType scope r)),
             start = s, end' = e\<rparr>])
     @ checkExpression resultType scope l @ checkExpression resultType scope r"
  by (simp add: checkExpression_binary operatorDiagnostics_def plusValid_def plusMessage_def)

text \<open>\<open>1 + true\<close> in the empty scope: one diagnostic, on \<open>[0, 8)\<close>.\<close>

theorem plus_rule_witness:
  "checkExpression anyResult (SimpleSymbolTable [])
     (BinaryExpression OpPlus (NumericLiteral 0 1) (BooleanLiteral 4 8) 0 8) =
   [\<lparr>message =
       ''The binary operator '+' cannot be applied to type 'number' and ''
         @ quoted ''boolean'',
     start = 0, end' = 8\<rparr>]"
  using plus_rule [of anyResult "SimpleSymbolTable []" "NumericLiteral 0 1"
      "BooleanLiteral 4 8" 0 8]
  by (simp add: checkExpression_def typeOf_def number_def boolean_def quoted_def)

text \<open>
  C4. For \<open>*\<close>, \<open>/\<close> and \<open>-\<close> each operand must be of kind Number or Any; an operand that
  is not gets a diagnostic ("The left-hand side (right-hand side) of a binary operator
  '<op>' must be of type 'number' or 'any'") on the range of that operand, the left one
  first. The rest of the result is what the operands give.
\<close>

theorem arithmetic_rule:
  assumes "op \<in> {OpTimes, OpDivide, OpMinus}"
  shows "checkExpression resultType scope (BinaryExpression op l r s e) =
     (if Type.kind (typeOf resultType scope l) \<in> {TypeKind.Number, TypeKind.Any} then []
      else [\<lparr>message =
               ''The left-hand side of a binary operator '' @ quoted (operatorText op)
                 @ '' must be of type 'number' or '' @ quoted ''any'',
             start = start_of l, end' = end_of l\<rparr>])
     @ (if Type.kind (typeOf resultType scope r) \<in> {TypeKind.Number, TypeKind.Any} then []
        else [\<lparr>message =
                 ''The right-hand side of a binary operator '' @ quoted (operatorText op)
                   @ '' must be of type 'number' or '' @ quoted ''any'',
               start = start_of r, end' = end_of r\<rparr>])
     @ checkExpression resultType scope l @ checkExpression resultType scope r"
  using assms
  by (auto simp add: checkExpression_binary operatorDiagnostics_def operandDiagnostics_def)

text \<open>\<open>true - 42\<close> in the empty scope: one diagnostic, on the left operand, \<open>[0, 4)\<close>.\<close>

theorem arithmetic_rule_witness:
  "OpMinus \<in> {OpTimes, OpDivide, OpMinus}
   \<and> checkExpression anyResult (SimpleSymbolTable [])
        (BinaryExpression OpMinus (BooleanLiteral 0 4) (NumericLiteral 7 9) 0 9) =
       [\<lparr>message =
           ''The left-hand side of a binary operator '-' must be of type 'number' or ''
             @ quoted ''any'',
         start = 0, end' = 4\<rparr>]"
  using arithmetic_rule [of OpMinus anyResult "SimpleSymbolTable []"
      "BooleanLiteral 0 4" "NumericLiteral 7 9" 0 9]
  by (simp add: checkExpression_def typeOf_def number_def boolean_def quoted_def)

text \<open>
  C5. For \<open>instanceof\<close> there are two checks, each with its own diagnostic on its own
  operand: the left operand must be of kind Object or Any, the right one of kind
  Function or Any. Neither check looks at the other operand, so both diagnostics can
  appear, and none does for an Object on the left and a Function on the right.
\<close>

theorem instanceof_rule:
  "checkExpression resultType scope (BinaryExpression OpInstanceOf l r s e) =
     (if Type.kind (typeOf resultType scope l) \<in> {TypeKind.Object, TypeKind.Any} then []
      else [\<lparr>message =
               ''The left-hand side of 'instanceof' must be of type 'any' or ''
                 @ quoted ''object'',
             start = start_of l, end' = end_of l\<rparr>])
     @ (if Type.kind (typeOf resultType scope r) \<in> {TypeKind.Function, TypeKind.Any} then []
        else [\<lparr>message =
                 ''The right-hand side of 'instanceof' must be of type 'any' or ''
                   @ quoted ''Function'',
               start = start_of r, end' = end_of r\<rparr>])
     @ checkExpression resultType scope l @ checkExpression resultType scope r"
  by (auto simp add: checkExpression_binary operatorDiagnostics_def operandDiagnostics_def)

text \<open>
  \<open>foo instanceof Bar\<close>: no diagnostic with \<open>foo\<close> an Object and \<open>Bar\<close> a Function, both
  diagnostics with the two kinds swapped.
\<close>

theorem instanceof_rule_witness:
  "checkExpression anyResult
     (SimpleSymbolTable
        [Symbol ''foo'' (Type ''Bar'' TypeKind.Object emptyMembers []),
         Symbol ''Bar'' (Type ''typeof Bar'' TypeKind.Function emptyMembers [])])
     (BinaryExpression OpInstanceOf (Identifier ''foo'' 0 3) (Identifier ''Bar'' 15 18) 0 18)
     = []
   \<and> checkExpression anyResult
     (SimpleSymbolTable
        [Symbol ''foo'' (Type ''typeof Bar'' TypeKind.Function emptyMembers []),
         Symbol ''Bar'' (Type ''Bar'' TypeKind.Object emptyMembers [])])
     (BinaryExpression OpInstanceOf (Identifier ''foo'' 0 3) (Identifier ''Bar'' 15 18) 0 18)
     = [\<lparr>message = ''The left-hand side of 'instanceof' must be of type 'any' or ''
                       @ quoted ''object'',
          start = 0, end' = 3\<rparr>,
        \<lparr>message = ''The right-hand side of 'instanceof' must be of type 'any' or ''
                       @ quoted ''Function'',
          start = 15, end' = 18\<rparr>]"
  using instanceof_rule [of anyResult "SimpleSymbolTable
        [Symbol ''foo'' (Type ''Bar'' TypeKind.Object emptyMembers []),
         Symbol ''Bar'' (Type ''typeof Bar'' TypeKind.Function emptyMembers [])]"
      "Identifier ''foo'' 0 3" "Identifier ''Bar'' 15 18" 0 18]
    instanceof_rule [of anyResult "SimpleSymbolTable
        [Symbol ''foo'' (Type ''typeof Bar'' TypeKind.Function emptyMembers []),
         Symbol ''Bar'' (Type ''Bar'' TypeKind.Object emptyMembers [])]"
      "Identifier ''foo'' 0 3" "Identifier ''Bar'' 15 18" 0 18]
  by (simp add: checkExpression_def typeOf_def)







text \<open>
  C7. An equality operator (\<open>===\<close>, \<open>!==\<close>, \<open>==\<close>, \<open>!=\<close>) adds no diagnostic of its
  own, whatever the types of its operands: the result is what the operands give.
\<close>

theorem equality_rule:
  assumes "op \<in> {OpStrictEquals, OpStrictNotEquals, OpEquals, OpNotEquals}"
  shows "checkExpression resultType scope (BinaryExpression op l r s e) =
           checkExpression resultType scope l @ checkExpression resultType scope r"
  using assms
  by (auto simp add: checkExpression_binary operatorDiagnostics_def operandDiagnostics_def)

text \<open>\<open>12 === {}\<close> in the empty scope: no diagnostic.\<close>

theorem equality_rule_witness:
  "OpStrictEquals \<in> {OpStrictEquals, OpStrictNotEquals, OpEquals, OpNotEquals}
   \<and> checkExpression anyResult (SimpleSymbolTable [])
        (BinaryExpression OpStrictEquals (NumericLiteral 0 2) (ObjectLiteral 7 9) 0 9) = []"
  using equality_rule [of OpStrictEquals anyResult "SimpleSymbolTable []"
      "NumericLiteral 0 2" "ObjectLiteral 7 9" 0 9]
  by (simp add: checkExpression_def)

text \<open>
  The expectations of \<open>test/checker.spec.ts\<close> that the claims above do not already
  cover, with the ranges that the parser gives the operands: \<open>1 + 2 + 3\<close>,
  \<open>"1" + 2 + null\<close>, \<open>123 * 456 / 789 - 30\<close>, \<open>12 - 3 * "foo"\<close>,
  \<open>123 instanceof Bar\<close>, \<open>foo instanceof bar\<close>, \<open>sym in {}\<close>, \<open>foo in {}\<close> and
  \<open>"key" in null\<close>.
\<close>

lemmas checker_defs =
  checkExpression_def operatorDiagnostics_def operandDiagnostics_def plusValid_def
  plusMessage_def anyResult_def anyType_def nullType_def number_def string_def boolean_def
  objectType_def quoted_def

lemma checker_spec_tests:
  "checkExpression anyResult (SimpleSymbolTable [])
     (BinaryExpression OpPlus
        (BinaryExpression OpPlus (NumericLiteral 0 1) (NumericLiteral 4 5) 0 5)
        (NumericLiteral 8 9) 0 9) = []"
  "checkExpression anyResult (SimpleSymbolTable [])
     (BinaryExpression OpPlus
        (BinaryExpression OpPlus (StringLiteral 0 3) (NumericLiteral 6 7) 0 7)
        (NullLiteral 10 14) 0 14) = []"
  "checkExpression anyResult (SimpleSymbolTable [])
     (BinaryExpression OpMinus
        (BinaryExpression OpDivide
           (BinaryExpression OpTimes (NumericLiteral 0 3) (NumericLiteral 6 9) 0 9)
           (NumericLiteral 12 15) 0 15)
        (NumericLiteral 18 20) 0 20) = []"
  "checkExpression anyResult (SimpleSymbolTable [])
     (BinaryExpression OpMinus (NumericLiteral 0 2)
        (BinaryExpression OpTimes (NumericLiteral 5 6) (StringLiteral 9 14) 5 14) 0 14) =
   [\<lparr>message =
       ''The right-hand side of a binary operator '*' must be of type 'number' or ''
         @ quoted ''any'',
     start = 9, end' = 14\<rparr>]"
  "checkExpression anyResult
     (SimpleSymbolTable [Symbol ''Bar'' (Type ''typeof Bar'' TypeKind.Function emptyMembers [])])
     (BinaryExpression OpInstanceOf (NumericLiteral 0 3) (Identifier ''Bar'' 15 18) 0 18) =
   [\<lparr>message = ''The left-hand side of 'instanceof' must be of type 'any' or ''
                 @ quoted ''object'',
     start = 0, end' = 3\<rparr>]"
  "checkExpression anyResult
     (SimpleSymbolTable
        [Symbol ''foo'' (Type ''Bar'' TypeKind.Object emptyMembers []),
         Symbol ''bar'' (Type ''Bar'' TypeKind.Object emptyMembers [])])
     (BinaryExpression OpInstanceOf (Identifier ''foo'' 0 3) (Identifier ''bar'' 15 18) 0 18) =
   [\<lparr>message = ''The right-hand side of 'instanceof' must be of type 'any' or ''
                 @ quoted ''Function'',
     start = 15, end' = 18\<rparr>]"
  "checkExpression anyResult
     (SimpleSymbolTable [Symbol ''sym'' (Type ''symbol'' TypeKind.Symbol emptyMembers [])])
     (BinaryExpression OpIn (Identifier ''sym'' 0 3) (ObjectLiteral 7 9) 0 9) = []"
  "checkExpression anyResult (SimpleSymbolTable [Symbol ''foo'' boolean])
     (BinaryExpression OpIn (Identifier ''foo'' 0 3) (ObjectLiteral 7 9) 0 9) =
   [\<lparr>message =
       ''The left-hand side of a 'in' operator must be of type 'any', 'number', 'string' or ''
         @ quoted ''symbol'',
     start = 0, end' = 3\<rparr>]"
  "checkExpression anyResult (SimpleSymbolTable [])
     (BinaryExpression OpIn (StringLiteral 0 5) (NullLiteral 9 13) 0 13) =
   [\<lparr>message = ''The right-hand side of a 'in' operator must be of type 'any' or ''
                 @ quoted ''object'',
     start = 9, end' = 13\<rparr>]"
  by (simp_all add: checker_defs)

text \<open>
  The result typing of these evaluations is one that lets \<open>any\<close> propagate.
\<close>

lemma anyResult_propagates: "anyPropagating anyResult = anyResult"
  by (rule ext)+ (simp add: anyPropagating_def anyResult_def)

end
